theory Spec2Isabelle
  imports Complex_Main "HOL-Library.AList"
begin

section \<open>Python values, exceptions and outcomes\<close>

text \<open>
  The collector of \<^verbatim>\<open>data_collection.py\<close> talks to three libraries: \<^verbatim>\<open>requests\<close>,
  \<^verbatim>\<open>pandas\<close> and \<^verbatim>\<open>numpy\<close>. Exceptions are values. The first four constructors are
  the subclasses of \<^verbatim>\<open>requests.exceptions.RequestException\<close> that a call of the
  session can raise (\<^verbatim>\<open>requests.exceptions.JSONDecodeError\<close> is one of them since
  requests 2.27); the others are builtin exceptions (\<^verbatim>\<open>OutOfBoundsDatetime\<close> is the
  subclass of \<^verbatim>\<open>ValueError\<close> that pandas raises).
\<close>

datatype exn =
    ConnectionError | Timeout | HTTPError | JSONDecodeError
  | KeyError | TypeError | IndexError | ValueError | OutOfBoundsDatetime
  | AttributeError | OSError

fun is_RequestException :: "exn \<Rightarrow> bool" where
  "is_RequestException ConnectionError = True"
| "is_RequestException Timeout = True"
| "is_RequestException HTTPError = True"
| "is_RequestException JSONDecodeError = True"
| "is_RequestException _ = False"

text \<open>
  A call returns a value, raises, or leaves the part of pandas that is modelled here
  (columns whose cells are not all numbers): \<open>Unmodelled\<close> says nothing about what the
  program does there.
\<close>

datatype 'a outcome = Returns 'a | Raises exn | Unmodelled

fun obind :: "'a outcome \<Rightarrow> ('a \<Rightarrow> 'b outcome) \<Rightarrow> 'b outcome" where
  "obind (Returns x) f = f x"
| "obind (Raises e) f = Raises e"
| "obind Unmodelled f = Unmodelled"

fun mapM :: "('a \<Rightarrow> 'b outcome) \<Rightarrow> 'a list \<Rightarrow> 'b list outcome" where
  "mapM f [] = Returns []"
| "mapM f (x # xs) = obind (f x) (\<lambda>y. obind (mapM f xs) (\<lambda>ys. Returns (y # ys)))"

text \<open>
  What \<^verbatim>\<open>response.json()\<close> returns: a Python value built from dicts (insertion ordered,
  keys distinct), lists, strings, numbers, booleans and \<^verbatim>\<open>None\<close>. Numbers are reals:
  rounding, overflow and the sign of zero are left out.
\<close>

datatype json =
    JNull | JBool bool | JNum real | JStr string
  | JArr "json list" | JObj "(string \<times> json) list"

text \<open>\<^verbatim>\<open>data[key]\<close> with a string key.\<close>

fun py_getitem_str :: "json \<Rightarrow> string \<Rightarrow> json outcome" where
  "py_getitem_str (JObj kvs) k =
     (case map_of kvs k of None \<Rightarrow> Raises KeyError | Some v \<Rightarrow> Returns v)"
| "py_getitem_str _ k = Raises TypeError"

text \<open>\<^verbatim>\<open>for item in value\<close>: a dict yields its keys, a string its characters.\<close>

fun py_iter :: "json \<Rightarrow> json list outcome" where
  "py_iter (JArr xs) = Returns xs"
| "py_iter (JObj kvs) = Returns (map (\<lambda>kv. JStr (fst kv)) kvs)"
| "py_iter (JStr s) = Returns (map (\<lambda>c. JStr [c]) s)"
| "py_iter _ = Raises TypeError"

text \<open>\<^verbatim>\<open>item[i]\<close> with \<open>i\<close> a non-negative integer (the source uses 0 and 1).\<close>

fun py_getitem_int :: "json \<Rightarrow> nat \<Rightarrow> json outcome" where
  "py_getitem_int (JArr xs) i = (if i < length xs then Returns (xs ! i) else Raises IndexError)"
| "py_getitem_int (JStr s) i = (if i < length s then Returns (JStr [s ! i]) else Raises IndexError)"
| "py_getitem_int (JObj kvs) i = Raises KeyError"
| "py_getitem_int _ i = Raises TypeError"

text \<open>\<^verbatim>\<open>[item[i] for item in data[key]]\<close>\<close>

definition comprehension :: "json \<Rightarrow> string \<Rightarrow> nat \<Rightarrow> json list outcome" where
  "comprehension data key i =
     obind (py_getitem_str data key) (\<lambda>arr.
     obind (py_iter arr) (\<lambda>items. mapM (\<lambda>item. py_getitem_int item i) items))"

section \<open>Floating-point cells\<close>

text \<open>
  A cell of a float column: a real number, an infinity or NaN (the missing value of
  pandas). Division and logarithm follow numpy, which raises nothing: a division by zero
  gives an infinity or NaN, the logarithm of a negative number gives NaN.
\<close>

datatype fval = FNum real | FPosInf | FNegInf | FNaN

fun fdiv :: "fval \<Rightarrow> fval \<Rightarrow> fval" where
  "fdiv (FNum a) (FNum b) =
     (if b \<noteq> 0 then FNum (a / b)
      else if 0 < a then FPosInf else if a < 0 then FNegInf else FNaN)"
| "fdiv (FNum a) FPosInf = FNum 0"
| "fdiv (FNum a) FNegInf = FNum 0"
| "fdiv FPosInf (FNum b) = (if b < 0 then FNegInf else FPosInf)"
| "fdiv FNegInf (FNum b) = (if b < 0 then FPosInf else FNegInf)"
| "fdiv _ _ = FNaN"

fun fsub :: "fval \<Rightarrow> real \<Rightarrow> fval" where
  "fsub (FNum a) c = FNum (a - c)"
| "fsub v c = v"

fun flog :: "fval \<Rightarrow> fval" where
  "flog (FNum a) = (if 0 < a then FNum (ln a) else if a = 0 then FNegInf else FNaN)"
| "flog FPosInf = FPosInf"
| "flog _ = FNaN"

text \<open>\<^verbatim>\<open>Series.shift(1)\<close>: every value moves one place down, the first place is NaN.\<close>

definition shift1 :: "fval list \<Rightarrow> fval list" where
  "shift1 xs = take (length xs) (FNaN # xs)"

text \<open>
  \<^verbatim>\<open>Series.pct_change()\<close> is \<^verbatim>\<open>s / s.shift(1) - 1\<close>. (Older pandas versions fill NaN
  values forward first; the price column built below holds no NaN.)
\<close>

definition pct_change :: "fval list \<Rightarrow> fval list" where
  "pct_change xs = map2 (\<lambda>a b. fsub (fdiv a b) 1) xs (shift1 xs)"

text \<open>\<^verbatim>\<open>np.log(s / s.shift(1))\<close>\<close>

definition log_ratio :: "fval list \<Rightarrow> fval list" where
  "log_ratio xs = map2 (\<lambda>a b. flog (fdiv a b)) xs (shift1 xs)"

section \<open>Data frames\<close>

text \<open>
  A cell or an index label: a float, a string, a date (the milliseconds since the epoch)
  or, in the two-level index that \<^verbatim>\<open>pd.concat(..., keys=...)\<close> builds, a pair.
\<close>

datatype cell = CNum fval | CStr string | CInt int | CDate real | CPair cell cell

text \<open>
  A \<^verbatim>\<open>DataFrame\<close>: the index (one label per row) and the columns in order, each with
  one cell per row. \<^verbatim>\<open>pd.DataFrame()\<close> has no row and no column.
\<close>

record dataframe =
  idx :: "cell list"
  cols :: "(string \<times> cell list) list"

definition empty_frame :: dataframe where
  "empty_frame = \<lparr>idx = [], cols = []\<rparr>"

text \<open>\<^verbatim>\<open>df.empty\<close>: one of the two axes has length 0.\<close>

definition df_empty :: "dataframe \<Rightarrow> bool" where
  "df_empty df = (idx df = [] \<or> cols df = [])"

text \<open>\<^verbatim>\<open>df[name] = cells\<close>: replaces the column in place, or appends it.\<close>

definition df_setitem :: "dataframe \<Rightarrow> string \<Rightarrow> cell list \<Rightarrow> dataframe" where
  "df_setitem df name cells = df\<lparr>cols := AList.update name cells (cols df)\<rparr>"

text \<open>\<^verbatim>\<open>df[name] = scalar\<close>: the scalar on every row.\<close>

definition df_setitem_scalar :: "dataframe \<Rightarrow> string \<Rightarrow> cell \<Rightarrow> dataframe" where
  "df_setitem_scalar df name c = df_setitem df name (replicate (length (idx df)) c)"

text \<open>\<^verbatim>\<open>df[name]\<close>\<close>

definition df_getitem :: "dataframe \<Rightarrow> string \<Rightarrow> cell list outcome" where
  "df_getitem df name =
     (case map_of (cols df) name of None \<Rightarrow> Raises KeyError | Some cs \<Rightarrow> Returns cs)"

section \<open>The series normalizer (lines 55 to 69 of get_historical_data)\<close>

fun as_number :: "json \<Rightarrow> real option" where
  "as_number (JNum x) = Some x"
| "as_number _ = None"

fun numbers :: "json list \<Rightarrow> real list option" where
  "numbers [] = Some []"
| "numbers (j # js) =
     (case as_number j of None \<Rightarrow> None
      | Some x \<Rightarrow> (case numbers js of None \<Rightarrow> None | Some xs \<Rightarrow> Some (x # xs)))"

text \<open>
  \<^verbatim>\<open>pd.to_datetime(ms, unit='ms')\<close>: a \<^verbatim>\<open>datetime64[ns]\<close> holds the nanoseconds since the
  epoch in 64 bits, and a value out of that range raises. The date is kept as its
  milliseconds.
\<close>

definition to_datetime_ms :: "real \<Rightarrow> real outcome" where
  "to_datetime_ms ms =
     (if \<bar>ms * 1000000\<bar> \<le> 9223372036854775807 then Returns ms else Raises OutOfBoundsDatetime)"

definition normalize_series :: "json \<Rightarrow> dataframe outcome" where
  "normalize_series data =
     obind (comprehension data ''prices'' 0) (\<lambda>timestamp.
     obind (comprehension data ''prices'' 1) (\<lambda>price.
     obind (comprehension data ''market_caps'' 1) (\<lambda>market_cap.
     obind (comprehension data ''total_volumes'' 1) (\<lambda>volume.
       if length price \<noteq> length timestamp \<or> length market_cap \<noteq> length timestamp
          \<or> length volume \<noteq> length timestamp
       then Raises ValueError
       else (case (numbers timestamp, numbers price, numbers market_cap, numbers volume) of
           (Some ts, Some ps, Some ms, Some vs) \<Rightarrow>
             obind (mapM to_datetime_ms ts) (\<lambda>dates.
               let df = \<lparr>idx = map CDate dates,
                        cols = [(''price'', map (\<lambda>x. CNum (FNum x)) ps),
                                (''market_cap'', map (\<lambda>x. CNum (FNum x)) ms),
                                (''volume'', map (\<lambda>x. CNum (FNum x)) vs)]\<rparr>;
                   df = df_setitem df ''returns'' (map CNum (pct_change (map FNum ps)));
                   df = df_setitem df ''log_returns'' (map CNum (log_ratio (map FNum ps)))
               in Returns df)
         | _ \<Rightarrow> Unmodelled)))))"

section \<open>The world outside: HTTP, the clock, the file system\<close>

text \<open>
  A response of the session: its status and what \<^verbatim>\<open>response.json()\<close> does, which is to
  return the decoded body or to raise.
\<close>

record response =
  status_code :: nat
  json_result :: "exn + json"

datatype pval = PStr string | PInt int

record datetime =
  year :: nat
  month :: nat
  day :: nat
  hour :: nat
  minute :: nat
  second :: nat

text \<open>
  \<open>session_get\<close> is \<^verbatim>\<open>self.session.get(url, params=params)\<close>: it returns a response or
  raises. \<open>now\<close> is what \<^verbatim>\<open>datetime.now()\<close> returns. \<open>to_csv_error\<close> says which
  exception, if any, writing the file at a path raises.
\<close>

record world =
  session_get :: "string \<Rightarrow> (string \<times> pval) list \<Rightarrow> exn + response"
  now :: datetime
  to_csv_error :: "string \<Rightarrow> exn option"

text \<open>
  Console messages, by the place that prints them; the numbers that \<open>main\<close> formats
  into its preview lines are not kept.
\<close>

datatype message =
    FetchOk string nat | FetchErr string exn | Fetching string string
  | Saved string | SavedCombined string | PricesErr exn
  | Start | Period int | Cryptos "string list" | Collected nat
  | PreviewSymbol string | PreviewPrice string | PreviewVariation string
  | PreviewVolatility string | Done | NoData

datatype event =
    HttpGet string "(string \<times> pval) list" | Print message | Sleep nat
  | ClockNow | ToCsv string dataframe

text \<open>What a call does (its events, in order) and how it ends.\<close>

type_synonym 'a io = "event list \<times> 'a outcome"

text \<open>\<^verbatim>\<open>response.raise_for_status()\<close> raises on the statuses 400 to 599.\<close>

definition raise_for_status :: "response \<Rightarrow> unit outcome" where
  "raise_for_status r =
     (if 400 \<le> status_code r \<and> status_code r < 600 then Raises HTTPError else Returns ())"

text \<open>\<^verbatim>\<open>session.get\<close>, \<^verbatim>\<open>raise_for_status\<close> and \<^verbatim>\<open>response.json()\<close> in a row.\<close>

definition fetch_json :: "world \<Rightarrow> string \<Rightarrow> (string \<times> pval) list \<Rightarrow> json outcome" where
  "fetch_json w url params =
     (case session_get w url params of
        Inl e \<Rightarrow> Raises e
      | Inr r \<Rightarrow> obind (raise_for_status r) (\<lambda>_.
          case json_result r of Inl e \<Rightarrow> Raises e | Inr data \<Rightarrow> Returns data))"

section \<open>config.py\<close>

definition COINGECKO_BASE_URL :: string where
  "COINGECKO_BASE_URL = ''https://api.coingecko.com/api/v3''"

definition CRYPTOCURRENCIES :: "(string \<times> string) list" where
  "CRYPTOCURRENCIES =
     [(''bitcoin'', ''BTC''), (''ethereum'', ''ETH''), (''cardano'', ''ADA''),
      (''polkadot'', ''DOT''), (''solana'', ''SOL''), (''chainlink'', ''LINK'')]"

definition DEFAULT_DAYS :: int where
  "DEFAULT_DAYS = 365"

text \<open>\<^verbatim>\<open>os.path.join\<close> of two parts, on POSIX.\<close>

definition path_join :: "string \<Rightarrow> string \<Rightarrow> string" where
  "path_join a b =
     (if b \<noteq> [] \<and> hd b = CHR ''/'' then b
      else if a = [] \<or> last a = CHR ''/'' then a @ b
      else a @ ''/'' @ b)"

definition RAW_DATA_DIR :: string where
  "RAW_DATA_DIR = path_join ''data'' ''raw''"

section \<open>CryptoDataCollector\<close>

subsection \<open>get_historical_data\<close>

definition series_url :: "string \<Rightarrow> string" where
  "series_url crypto_id = COINGECKO_BASE_URL @ ''/coins/'' @ crypto_id @ ''/market_chart''"

definition series_params :: "string \<Rightarrow> int \<Rightarrow> (string \<times> pval) list" where
  "series_params vs_currency days =
     [(''vs_currency'', PStr vs_currency), (''days'', PInt days), (''interval'', PStr ''daily'')]"

text \<open>The body of the \<^verbatim>\<open>try\<close> block, lines 50 to 72.\<close>

definition series_try :: "world \<Rightarrow> string \<Rightarrow> string \<Rightarrow> int \<Rightarrow> dataframe outcome" where
  "series_try w crypto_id vs_currency days =
     obind (fetch_json w (series_url crypto_id) (series_params vs_currency days)) normalize_series"

text \<open>
  The handler catches \<^verbatim>\<open>requests.exceptions.RequestException\<close> and nothing else: any
  other exception of the body leaves the function.
\<close>

definition get_historical_data :: "world \<Rightarrow> string \<Rightarrow> string \<Rightarrow> int \<Rightarrow> dataframe io" where
  "get_historical_data w crypto_id vs_currency days =
     (let request = HttpGet (series_url crypto_id) (series_params vs_currency days) in
      case series_try w crypto_id vs_currency days of
        Returns df \<Rightarrow> ([request, Print (FetchOk crypto_id (length (idx df)))], Returns df)
      | Raises e \<Rightarrow>
          if is_RequestException e
          then ([request, Print (FetchErr crypto_id e)], Returns empty_frame)
          else ([request], Raises e)
      | Unmodelled \<Rightarrow> ([request], Unmodelled))"

subsection \<open>get_multiple_cryptos\<close>

text \<open>
  \<open>crypto_dict\<close> and the result are Python dicts, kept as association lists in
  insertion order: \<^verbatim>\<open>results[symbol] = df\<close> replaces the value of a key that is there
  and appends a new key. The loop carries the result and the events so far.
\<close>

fun collect_loop ::
  "world \<Rightarrow> int \<Rightarrow> (string \<times> string) list \<Rightarrow> (string \<times> dataframe) list \<Rightarrow> event list
     \<Rightarrow> (string \<times> dataframe) list io" where
  "collect_loop w days [] results evs = (evs, Returns results)"
| "collect_loop w days ((crypto_id, symbol) # rest) results evs =
     (case get_historical_data w crypto_id ''usd'' days of
        (es, Returns df) \<Rightarrow>
          collect_loop w days rest
            (if \<not> df_empty df
             then AList.update symbol (df_setitem_scalar df ''symbol'' (CStr symbol)) results
             else results)
            (evs @ [Print (Fetching symbol crypto_id)] @ es @ [Sleep 1])
      | (es, Raises e) \<Rightarrow> (evs @ [Print (Fetching symbol crypto_id)] @ es, Raises e)
      | (es, Unmodelled) \<Rightarrow> (evs @ [Print (Fetching symbol crypto_id)] @ es, Unmodelled))"

definition get_multiple_cryptos ::
  "world \<Rightarrow> (string \<times> string) list \<Rightarrow> int \<Rightarrow> (string \<times> dataframe) list io" where
  "get_multiple_cryptos w crypto_dict days = collect_loop w days crypto_dict [] []"

subsection \<open>save_data\<close>

text \<open>
  \<^verbatim>\<open>strftime("%Y%m%d_%H%M%S")\<close>: every field in decimal, padded with zeros to its width.
  \<open>digits k n\<close> gives the last \<open>k\<close> decimal digits of \<open>n\<close>, which is all of them for
  the fields of a date with a four-digit year.
\<close>

definition digit_char :: "nat \<Rightarrow> char" where
  "digit_char d = ''0123456789'' ! d"

fun digits :: "nat \<Rightarrow> nat \<Rightarrow> string" where
  "digits 0 n = []"
| "digits (Suc k) n = digits k (n div 10) @ [digit_char (n mod 10)]"

definition strftime :: "datetime \<Rightarrow> string" where
  "strftime d =
     digits 4 (year d) @ digits 2 (month d) @ digits 2 (day d) @ ''_'' @
     digits 2 (hour d) @ digits 2 (minute d) @ digits 2 (second d)"

definition asset_filename :: "string \<Rightarrow> string \<Rightarrow> string \<Rightarrow> string" where
  "asset_filename filename_prefix symbol timestamp =
     filename_prefix @ ''_'' @ symbol @ ''_'' @ timestamp @ ''.csv''"

definition combined_filename :: "string \<Rightarrow> string \<Rightarrow> string" where
  "combined_filename filename_prefix timestamp =
     filename_prefix @ ''_combined_'' @ timestamp @ ''.csv''"

text \<open>\<^verbatim>\<open>df.to_csv(filepath)\<close>: the file is written, or the write raises.\<close>

definition to_csv :: "world \<Rightarrow> string \<Rightarrow> dataframe \<Rightarrow> unit io" where
  "to_csv w filepath df =
     (case to_csv_error w filepath of
        None \<Rightarrow> ([ToCsv filepath df], Returns ())
      | Some e \<Rightarrow> ([], Raises e))"

text \<open>The loop of lines 116 to 120.\<close>

fun save_loop ::
  "world \<Rightarrow> string \<Rightarrow> string \<Rightarrow> (string \<times> dataframe) list \<Rightarrow> event list \<Rightarrow> unit io" where
  "save_loop w filename_prefix timestamp [] evs = (evs, Returns ())"
| "save_loop w filename_prefix timestamp ((symbol, df) # rest) evs =
     (let filepath = path_join RAW_DATA_DIR (asset_filename filename_prefix symbol timestamp) in
      case to_csv w filepath df of
        (es, Returns _) \<Rightarrow>
          save_loop w filename_prefix timestamp rest (evs @ es @ [Print (Saved filepath)])
      | (es, Raises e) \<Rightarrow> (evs @ es, Raises e)
      | (es, Unmodelled) \<Rightarrow> (evs @ es, Unmodelled))"

text \<open>
  \<^verbatim>\<open>pd.concat(frames, keys=keys)\<close>: the rows of the frames one after the other, each
  label paired with the key of its frame; the columns are those of all frames in the
  order they first appear, with NaN where a frame has no such column. With no frame at
  all it raises \<^verbatim>\<open>ValueError\<close> ("No objects to concatenate").
\<close>

fun first_seen :: "'a list \<Rightarrow> 'a list \<Rightarrow> 'a list" where
  "first_seen seen [] = []"
| "first_seen seen (x # xs) =
     (if x \<in> set seen then first_seen seen xs else x # first_seen (x # seen) xs)"

definition column_or_nan :: "dataframe \<Rightarrow> string \<Rightarrow> cell list" where
  "column_or_nan df name =
     (case map_of (cols df) name of
        None \<Rightarrow> replicate (length (idx df)) (CNum FNaN)
      | Some cs \<Rightarrow> cs)"

definition pd_concat :: "(string \<times> dataframe) list \<Rightarrow> dataframe outcome" where
  "pd_concat keyed =
     (if keyed = [] then Raises ValueError
      else Returns
        \<lparr>idx = concat (map (\<lambda>(k, df). map (CPair (CStr k)) (idx df)) keyed),
         cols = map (\<lambda>name. (name, concat (map (\<lambda>(k, df). column_or_nan df name) keyed)))
                  (first_seen [] (concat (map (\<lambda>(k, df). map fst (cols df)) keyed)))\<rparr>)"

definition save_data :: "world \<Rightarrow> (string \<times> dataframe) list \<Rightarrow> string \<Rightarrow> unit io" where
  "save_data w data_dict filename_prefix =
     (let timestamp = strftime (now w) in
      case save_loop w filename_prefix timestamp data_dict [ClockNow] of
        (evs, Returns _) \<Rightarrow>
          (case pd_concat data_dict of
             Returns combined_df \<Rightarrow>
               (let combined_filepath =
                      path_join RAW_DATA_DIR (combined_filename filename_prefix timestamp) in
                case to_csv w combined_filepath combined_df of
                  (es, Returns _) \<Rightarrow>
                    (evs @ es @ [Print (SavedCombined combined_filepath)], Returns ())
                | (es, r) \<Rightarrow> (evs @ es, r))
           | Raises e \<Rightarrow> (evs, Raises e)
           | Unmodelled \<Rightarrow> (evs, Unmodelled))
      | (evs, r) \<Rightarrow> (evs, r))"

subsection \<open>get_current_prices\<close>

text \<open>\<^verbatim>\<open>','.join(crypto_ids)\<close>\<close>

fun join_str :: "string \<Rightarrow> string list \<Rightarrow> string" where
  "join_str sep [] = []"
| "join_str sep [x] = x"
| "join_str sep (x # y # ys) = x @ sep @ join_str sep (y # ys)"

definition prices_url :: string where
  "prices_url = COINGECKO_BASE_URL @ ''/simple/price''"

definition prices_params :: "string list \<Rightarrow> (string \<times> pval) list" where
  "prices_params crypto_ids =
     [(''ids'', PStr (join_str '','' crypto_ids)), (''vs_currencies'', PStr ''usd''),
      (''include_market_cap'', PStr ''true''), (''include_24hr_vol'', PStr ''true''),
      (''include_24hr_change'', PStr ''true'')]"

text \<open>
  \<^verbatim>\<open>df.index.name = name; df.reset_index(inplace=True)\<close>: the index becomes the first
  column, under the name, and the rows are numbered from 0; pandas raises
  \<^verbatim>\<open>ValueError\<close> when there is a column of that name already.
\<close>

definition reset_index :: "string \<Rightarrow> dataframe \<Rightarrow> dataframe outcome" where
  "reset_index name df =
     (if name \<in> set (map fst (cols df)) then Raises ValueError
      else Returns \<lparr>idx = map (\<lambda>i. CInt (int i)) [0..<length (idx df)],
                    cols = (name, idx df) # cols df\<rparr>)"

text \<open>
  \<^verbatim>\<open>pd.DataFrame.from_dict(data, orient='index')\<close>. It starts with \<^verbatim>\<open>len(data)\<close>, which
  raises \<^verbatim>\<open>TypeError\<close> on \<^verbatim>\<open>None\<close>, a boolean or a number. When the length is not 0 it
  calls \<^verbatim>\<open>data.values()\<close>, which a list or a string does not have. When the first value
  is a dict, every value is read with \<^verbatim>\<open>.items()\<close>, which only a dict has: the rows are
  the keys of \<open>data\<close>, the columns the keys of the inner dicts, both in the order in
  which they first appear, with NaN where a row has no such key. Of the cells, numbers
  and strings are modelled. An empty dict or list gives the frame with no row and no
  column; an empty string is refused by the \<^verbatim>\<open>DataFrame\<close> constructor.
\<close>

fun leaf_cell :: "json \<Rightarrow> cell option" where
  "leaf_cell (JNum x) = Some (CNum (FNum x))"
| "leaf_cell (JStr s) = Some (CStr s)"
| "leaf_cell _ = None"

text \<open>The loop of \<^verbatim>\<open>_from_nested_dict\<close>: each value of \<open>data\<close> must have \<^verbatim>\<open>.items()\<close>.\<close>

fun nested_items ::
  "(string \<times> json) list \<Rightarrow> (string \<times> (string \<times> json) list) list outcome" where
  "nested_items [] = Returns []"
| "nested_items ((index, JObj inner) # rest) =
     obind (nested_items rest) (\<lambda>rows. Returns ((index, inner) # rows))"
| "nested_items ((index, _) # rest) = Raises AttributeError"

definition nested_cell ::
  "(string \<times> (string \<times> json) list) list \<Rightarrow> string \<Rightarrow> string \<Rightarrow> cell option" where
  "nested_cell rows column index =
     (case map_of rows index of
        None \<Rightarrow> Some (CNum FNaN)
      | Some inner \<Rightarrow>
          (case map_of inner column of None \<Rightarrow> Some (CNum FNaN) | Some v \<Rightarrow> leaf_cell v))"

fun cells_of :: "cell option list \<Rightarrow> cell list option" where
  "cells_of [] = Some []"
| "cells_of (c # cs) =
     (case c of None \<Rightarrow> None
      | Some x \<Rightarrow> (case cells_of cs of None \<Rightarrow> None | Some xs \<Rightarrow> Some (x # xs)))"

fun columns_of :: "(string \<times> cell list option) list \<Rightarrow> (string \<times> cell list) list option" where
  "columns_of [] = Some []"
| "columns_of ((name, c) # cs) =
     (case c of None \<Rightarrow> None
      | Some x \<Rightarrow> (case columns_of cs of None \<Rightarrow> None | Some xs \<Rightarrow> Some ((name, x) # xs)))"

definition nested_frame :: "(string \<times> (string \<times> json) list) list \<Rightarrow> dataframe outcome" where
  "nested_frame rows =
     (let columns = first_seen [] (concat (map (\<lambda>row. map fst (snd row)) rows));
          index = first_seen []
            (concat (map (\<lambda>column.
               map fst (filter (\<lambda>row. column \<in> set (map fst (snd row))) rows)) columns))
      in case columns_of
           (map (\<lambda>column. (column, cells_of (map (nested_cell rows column) index))) columns) of
           None \<Rightarrow> Unmodelled
         | Some cs \<Rightarrow> Returns \<lparr>idx = map CStr index, cols = cs\<rparr>)"

fun from_dict_index :: "json \<Rightarrow> dataframe outcome" where
  "from_dict_index JNull = Raises TypeError"
| "from_dict_index (JBool b) = Raises TypeError"
| "from_dict_index (JNum x) = Raises TypeError"
| "from_dict_index (JStr s) = (if s = [] then Raises ValueError else Raises AttributeError)"
| "from_dict_index (JArr xs) = (if xs = [] then Returns empty_frame else Raises AttributeError)"
| "from_dict_index (JObj kvs) =
     (case kvs of
        [] \<Rightarrow> Returns empty_frame
      | (index, JObj inner) # rest \<Rightarrow> obind (nested_items kvs) nested_frame
      | _ \<Rightarrow> Unmodelled)"

text \<open>The body of the \<^verbatim>\<open>try\<close> block, lines 150 to 158.\<close>

definition prices_try :: "world \<Rightarrow> string list \<Rightarrow> dataframe outcome" where
  "prices_try w crypto_ids =
     obind (fetch_json w prices_url (prices_params crypto_ids)) (\<lambda>data.
     obind (from_dict_index data) (reset_index ''crypto_id''))"

definition get_current_prices :: "world \<Rightarrow> string list \<Rightarrow> dataframe io" where
  "get_current_prices w crypto_ids =
     (let request = HttpGet prices_url (prices_params crypto_ids) in
      case prices_try w crypto_ids of
        Returns df \<Rightarrow> ([request], Returns df)
      | Raises e \<Rightarrow>
          if is_RequestException e
          then ([request, Print (PricesErr e)], Returns empty_frame)
          else ([request], Raises e)
      | Unmodelled \<Rightarrow> ([request], Unmodelled))"

subsection \<open>main\<close>

text \<open>\<^verbatim>\<open>series.iloc[-k]\<close> for \<open>k > 0\<close>\<close>

definition iloc_neg :: "cell list \<Rightarrow> nat \<Rightarrow> cell outcome" where
  "iloc_neg cs k = (if k \<le> length cs then Returns (cs ! (length cs - k)) else Raises IndexError)"

text \<open>
  The four lines that \<open>main\<close> prints for one asset (lines 182 to 185). A line is printed
  once its values are computed: the last price, the price 30 rows before the end, the
  returns column.
\<close>

definition preview :: "string \<Rightarrow> dataframe \<Rightarrow> unit io" where
  "preview symbol df =
     (let e1 = [Print (PreviewSymbol symbol)] in
      case obind (df_getitem df ''price'') (\<lambda>p. iloc_neg p 1) of
        Returns _ \<Rightarrow>
          (let e2 = e1 @ [Print (PreviewPrice symbol)] in
           case obind (df_getitem df ''price'') (\<lambda>p. obind (iloc_neg p 1) (\<lambda>_.
                obind (df_getitem df ''price'') (\<lambda>p. iloc_neg p 30))) of
             Returns _ \<Rightarrow>
               (let e3 = e2 @ [Print (PreviewVariation symbol)] in
                case df_getitem df ''returns'' of
                  Returns _ \<Rightarrow> (e3 @ [Print (PreviewVolatility symbol)], Returns ())
                | Raises e \<Rightarrow> (e3, Raises e)
                | Unmodelled \<Rightarrow> (e3, Unmodelled))
           | Raises e \<Rightarrow> (e2, Raises e)
           | Unmodelled \<Rightarrow> (e2, Unmodelled))
      | Raises e \<Rightarrow> (e1, Raises e)
      | Unmodelled \<Rightarrow> (e1, Unmodelled))"

fun preview_loop :: "(string \<times> dataframe) list \<Rightarrow> event list \<Rightarrow> unit io" where
  "preview_loop [] evs = (evs, Returns ())"
| "preview_loop ((symbol, df) # rest) evs =
     (case preview symbol df of
        (es, Returns _) \<Rightarrow> preview_loop rest (evs @ es)
      | (es, r) \<Rightarrow> (evs @ es, r))"

definition main :: "world \<Rightarrow> unit io" where
  "main w =
     (let e0 = [Print Start, Print (Period DEFAULT_DAYS),
                Print (Cryptos (map snd CRYPTOCURRENCIES))] in
      case get_multiple_cryptos w CRYPTOCURRENCIES DEFAULT_DAYS of
        (es, Returns data) \<Rightarrow>
          if data \<noteq> [] then
            (case preview_loop data (e0 @ es @ [Print (Collected (length data))]) of
               (ep, Returns _) \<Rightarrow>
                 (case save_data w data ''crypto_data'' of
                    (sv, Returns _) \<Rightarrow> (ep @ sv @ [Print Done], Returns ())
                  | (sv, r) \<Rightarrow> (ep @ sv, r))
             | (ep, r) \<Rightarrow> (ep, r))
          else (e0 @ es @ [Print NoData], Returns ())
      | (es, Raises e) \<Rightarrow> (e0 @ es, Raises e)
      | (es, Unmodelled) \<Rightarrow> (e0 @ es, Unmodelled))"

section \<open>Notions used to state the properties\<close>

text \<open>
  A well-formed payload of the chart endpoint: a dict whose keys \<^verbatim>\<open>prices\<close>,
  \<^verbatim>\<open>market_caps\<close> and \<^verbatim>\<open>total_volumes\<close> hold lists of \<^verbatim>\<open>[timestamp, value]\<close> pairs of
  numbers, as many in each, with timestamps that \<^verbatim>\<open>datetime64[ns]\<close> can hold.
\<close>

definition pairs_json :: "(real \<times> real) list \<Rightarrow> json" where
  "pairs_json xs = JArr (map (\<lambda>p. JArr [JNum (fst p), JNum (snd p)]) xs)"

definition in_datetime_range :: "real \<Rightarrow> bool" where
  "in_datetime_range ms = (\<bar>ms * 1000000\<bar> \<le> 9223372036854775807)"

definition wellformed_series ::
  "json \<Rightarrow> (real \<times> real) list \<Rightarrow> (real \<times> real) list \<Rightarrow> (real \<times> real) list \<Rightarrow> bool" where
  "wellformed_series data ps ms vs =
     (case data of
        JObj kvs \<Rightarrow>
          map_of kvs ''prices'' = Some (pairs_json ps) \<and>
          map_of kvs ''market_caps'' = Some (pairs_json ms) \<and>
          map_of kvs ''total_volumes'' = Some (pairs_json vs) \<and>
          length ms = length ps \<and> length vs = length ps \<and>
          list_all in_datetime_range (map fst ps)
      | _ \<Rightarrow> False)"

text \<open>A valid payload is well formed and its prices are positive, as the data model says.\<close>

definition valid_series ::
  "json \<Rightarrow> (real \<times> real) list \<Rightarrow> (real \<times> real) list \<Rightarrow> (real \<times> real) list \<Rightarrow> bool" where
  "valid_series data ps ms vs =
     (wellformed_series data ps ms vs \<and> list_all (\<lambda>v. 0 < v) (map snd ps))"

text \<open>The frame that the normalizer builds from the three lists of pairs.\<close>

definition series_frame ::
  "(real \<times> real) list \<Rightarrow> (real \<times> real) list \<Rightarrow> (real \<times> real) list \<Rightarrow> dataframe" where
  "series_frame ps ms vs =
     \<lparr>idx = map CDate (map fst ps),
      cols = [(''price'', map (\<lambda>v. CNum (FNum v)) (map snd ps)),
              (''market_cap'', map (\<lambda>v. CNum (FNum v)) (map snd ms)),
              (''volume'', map (\<lambda>v. CNum (FNum v)) (map snd vs)),
              (''returns'', map CNum (pct_change (map FNum (map snd ps)))),
              (''log_returns'', map CNum (log_ratio (map FNum (map snd ps))))]\<rparr>"

text \<open>
  How the fetch of one asset inside \<open>get_multiple_cryptos\<close> ends: it fails when the
  series that comes back is empty (the request raised a \<^verbatim>\<open>RequestException\<close>, or the
  payload had no row), it succeeds when the series has rows.
\<close>

definition hist :: "world \<Rightarrow> int \<Rightarrow> string \<Rightarrow> dataframe outcome" where
  "hist w days crypto_id = snd (get_historical_data w crypto_id ''usd'' days)"

definition fetch_fails :: "world \<Rightarrow> int \<Rightarrow> string \<Rightarrow> bool" where
  "fetch_fails w days crypto_id =
     (case series_try w crypto_id ''usd'' days of
        Returns df \<Rightarrow> df_empty df
      | Raises e \<Rightarrow> is_RequestException e
      | Unmodelled \<Rightarrow> False)"

definition fetch_succeeds :: "world \<Rightarrow> int \<Rightarrow> string \<Rightarrow> bool" where
  "fetch_succeeds w days crypto_id =
     (case series_try w crypto_id ''usd'' days of
        Returns df \<Rightarrow> \<not> df_empty df
      | _ \<Rightarrow> False)"

text \<open>The series stored for an asset: what the fetch returned, with the ticker column.\<close>

definition tagged :: "dataframe \<Rightarrow> string \<Rightarrow> dataframe" where
  "tagged df symbol = df_setitem_scalar df ''symbol'' (CStr symbol)"

text \<open>One round of the loop of \<open>get_multiple_cryptos\<close>, on the result alone.\<close>

definition collect_step ::
  "world \<Rightarrow> int \<Rightarrow> string \<times> string \<Rightarrow> (string \<times> dataframe) list \<Rightarrow> (string \<times> dataframe) list"
  where
  "collect_step w days entry results =
     (case hist w days (fst entry) of
        Returns df \<Rightarrow>
          if \<not> df_empty df then AList.update (snd entry) (tagged df (snd entry)) results
          else results
      | _ \<Rightarrow> results)"

text \<open>The events of a call, by kind.\<close>

fun requests_of :: "event list \<Rightarrow> (string \<times> (string \<times> pval) list) list" where
  "requests_of [] = []"
| "requests_of (HttpGet url params # evs) = (url, params) # requests_of evs"
| "requests_of (_ # evs) = requests_of evs"

fun written :: "event list \<Rightarrow> (string \<times> dataframe) list" where
  "written [] = []"
| "written (ToCsv path df # evs) = (path, df) # written evs"
| "written (_ # evs) = written evs"

fun clock_reads :: "event list \<Rightarrow> nat" where
  "clock_reads [] = 0"
| "clock_reads (ClockNow # evs) = Suc (clock_reads evs)"
| "clock_reads (_ # evs) = clock_reads evs"

text \<open>
  The files of one call of \<open>save_data\<close>, in the order of the writes: one per asset,
  then the combined one.
\<close>

definition asset_files ::
  "string \<Rightarrow> string \<Rightarrow> (string \<times> dataframe) list \<Rightarrow> (string \<times> dataframe) list" where
  "asset_files filename_prefix timestamp data_dict =
     map (\<lambda>entry. (path_join RAW_DATA_DIR (asset_filename filename_prefix (fst entry) timestamp),
                    snd entry)) data_dict"

definition all_files ::
  "string \<Rightarrow> string \<Rightarrow> (string \<times> dataframe) list \<Rightarrow> (string \<times> dataframe) list" where
  "all_files filename_prefix timestamp data_dict =
     asset_files filename_prefix timestamp data_dict @
     (case pd_concat data_dict of
        Returns combined_df \<Rightarrow>
          [(path_join RAW_DATA_DIR (combined_filename filename_prefix timestamp), combined_df)]
      | _ \<Rightarrow> [])"

section \<open>Sample inputs\<close>

definition day_ms :: real where
  "day_ms = 86400000"

definition sample_prices :: "(real \<times> real) list" where
  "sample_prices = [(0, 100), (day_ms, 110), (2 * day_ms, 121)]"

definition sample_caps :: "(real \<times> real) list" where
  "sample_caps = [(0, 5000), (day_ms, 5500), (2 * day_ms, 6050)]"

definition sample_volumes :: "(real \<times> real) list" where
  "sample_volumes = [(0, 70), (day_ms, 80), (2 * day_ms, 90)]"

definition chart_payload ::
  "(real \<times> real) list \<Rightarrow> (real \<times> real) list \<Rightarrow> (real \<times> real) list \<Rightarrow> json" where
  "chart_payload ps ms vs =
     JObj [(''prices'', pairs_json ps), (''market_caps'', pairs_json ms),
           (''total_volumes'', pairs_json vs)]"

definition sample_payload :: json where
  "sample_payload = chart_payload sample_prices sample_caps sample_volumes"

text \<open>Two days on which the price is negative.\<close>

definition negative_prices :: "(real \<times> real) list" where
  "negative_prices = [(0, - 1), (day_ms, - 2)]"

definition negative_payload :: json where
  "negative_payload = chart_payload negative_prices negative_prices negative_prices"

text \<open>Worlds: what the session answers, the time, and a file system that accepts every write.\<close>

definition ok_response :: "json \<Rightarrow> response" where
  "ok_response data = \<lparr>status_code = 200, json_result = Inr data\<rparr>"

definition sample_now :: datetime where
  "sample_now = \<lparr>year = 2024, month = 3, day = 9, hour = 14, minute = 5, second = 7\<rparr>"

definition world_of :: "(string \<Rightarrow> exn + response) \<Rightarrow> world" where
  "world_of answer =
     \<lparr>session_get = (\<lambda>url params. answer url), now = sample_now, to_csv_error = (\<lambda>path. None)\<rparr>"

text \<open>Every request gets the payload \<^verbatim>\<open>{}\<close>, with status 200.\<close>

definition no_arrays_world :: world where
  "no_arrays_world = world_of (\<lambda>url. Inr (ok_response (JObj [])))"

text \<open>Every request gets a body that \<^verbatim>\<open>response.json()\<close> cannot decode.\<close>

definition undecodable_world :: world where
  "undecodable_world = world_of (\<lambda>url. Inr \<lparr>status_code = 200, json_result = Inl JSONDecodeError\<rparr>)"

text \<open>The request for bitcoin fails in transport, the one for ethereum brings three days.\<close>

definition mixed_world :: world where
  "mixed_world =
     world_of (\<lambda>url. if url = series_url ''bitcoin'' then Inl ConnectionError
                     else if url = series_url ''ethereum'' then Inr (ok_response sample_payload)
                     else Inl Timeout)"

text \<open>A payload of one day.\<close>

definition one_day :: "(real \<times> real) list" where
  "one_day = [(0, 50)]"

definition one_day_payload :: json where
  "one_day_payload = chart_payload one_day one_day one_day"

definition one_day_frame :: dataframe where
  "one_day_frame = series_frame one_day one_day one_day"

text \<open>The request for bitcoin brings three days, the one for ethereum one day.\<close>

definition both_ok_world :: world where
  "both_ok_world =
     world_of (\<lambda>url. if url = series_url ''bitcoin'' then Inr (ok_response sample_payload)
                     else if url = series_url ''ethereum'' then Inr (ok_response one_day_payload)
                     else Inl Timeout)"

text \<open>Every request fails in transport.\<close>

definition all_fail_world :: world where
  "all_fail_world = world_of (\<lambda>url. Inl ConnectionError)"

definition two_assets :: "(string \<times> string) list" where
  "two_assets = [(''bitcoin'', ''BTC''), (''ethereum'', ''ETH'')]"

text \<open>Two asset ids under one ticker.\<close>

definition same_ticker :: "(string \<times> string) list" where
  "same_ticker = [(''bitcoin'', ''XBT''), (''ethereum'', ''XBT'')]"

definition sample_frame :: dataframe where
  "sample_frame = series_frame sample_prices sample_caps sample_volumes"

text \<open>Two worlds that differ by the time of the call, one second apart.\<close>

definition saving_world :: world where
  "saving_world = world_of (\<lambda>url. Inl Timeout)"

definition later_world :: world where
  "later_world = saving_world\<lparr>now := sample_now\<lparr>second := 8\<rparr>\<rparr>"

definition one_asset :: "(string \<times> dataframe) list" where
  "one_asset = [(''BTC'', one_day_frame)]"

text \<open>
  The request for bitcoin gets the payload \<^verbatim>\<open>{}\<close>, the one for ethereum brings three
  days.
\<close>

definition malformed_first_world :: world where
  "malformed_first_world =
     world_of (\<lambda>url. if url = series_url ''bitcoin'' then Inr (ok_response (JObj []))
                     else if url = series_url ''ethereum'' then Inr (ok_response sample_payload)
                     else Inl Timeout)"

text \<open>Every request gets the list \<^verbatim>\<open>["error"]\<close>, with status 200.\<close>

definition list_body_world :: world where
  "list_body_world = world_of (\<lambda>url. Inr (ok_response (JArr [JStr ''error''])))"

text \<open>Every request gets \<^verbatim>\<open>{"bitcoin": {"crypto_id": 1}}\<close>, with status 200.\<close>

definition crypto_id_key_world :: world where
  "crypto_id_key_world =
     world_of (\<lambda>url. Inr (ok_response (JObj [(''bitcoin'', JObj [(''crypto_id'', JNum 1)])])))"

text \<open>Every request gets the quotes of two assets, with status 200.\<close>

definition quotes_payload :: json where
  "quotes_payload =
     JObj [(''bitcoin'', JObj [(''usd'', JNum 50000), (''usd_market_cap'', JNum 900)]),
           (''ethereum'', JObj [(''usd'', JNum 3000)])]"

definition quotes_world :: world where
  "quotes_world = world_of (\<lambda>url. Inr (ok_response quotes_payload))"

section \<open>The normalizer on well-formed payloads\<close>

lemma mapM_map:
  "(\<And>x. x \<in> set xs \<Longrightarrow> f (h x) = Returns (g x)) \<Longrightarrow> mapM f (map h xs) = Returns (map g xs)"
  by (induction xs) auto

lemma comprehension_pairs0:
  "map_of kvs key = Some (pairs_json xs) \<Longrightarrow>
   comprehension (JObj kvs) key 0 = Returns (map (\<lambda>x. JNum (fst x)) xs)"
  unfolding comprehension_def pairs_json_def
  by (simp add: mapM_map split_beta)

lemma comprehension_pairs1:
  "map_of kvs key = Some (pairs_json xs) \<Longrightarrow>
   comprehension (JObj kvs) key (Suc 0) = Returns (map (\<lambda>x. JNum (snd x)) xs)"
  unfolding comprehension_def pairs_json_def
  by (simp add: mapM_map split_beta)

lemma numbers_JNum: "numbers (map (\<lambda>x. JNum (f x)) xs) = Some (map f xs)"
  by (induction xs) auto

lemma mapM_to_datetime:
  "list_all in_datetime_range ts \<Longrightarrow> mapM to_datetime_ms ts = Returns ts"
  by (induction ts) (auto simp: to_datetime_ms_def in_datetime_range_def)

lemma normalize_wellformed:
  assumes "wellformed_series data ps ms vs"
  shows "normalize_series data = Returns (series_frame ps ms vs)"
proof -
  from assms obtain kvs where data: "data = JObj kvs"
    and p: "map_of kvs ''prices'' = Some (pairs_json ps)"
    and m: "map_of kvs ''market_caps'' = Some (pairs_json ms)"
    and v: "map_of kvs ''total_volumes'' = Some (pairs_json vs)"
    and len: "length ms = length ps" "length vs = length ps"
    and rng: "list_all in_datetime_range (map fst ps)"
    by (auto simp: wellformed_series_def split: json.splits)
  have dates: "mapM to_datetime_ms (map fst ps) = Returns (map fst ps)"
    using rng by (rule mapM_to_datetime)
  show ?thesis
    unfolding normalize_series_def data
    by (simp add: comprehension_pairs0 [OF p] comprehension_pairs1 [OF p]
        comprehension_pairs1 [OF m] comprehension_pairs1 [OF v] len
        numbers_JNum dates series_frame_def df_setitem_def comp_def split_beta)
qed

lemma length_shift1: "length (shift1 xs) = length xs"
  by (simp add: shift1_def)

lemma shift1_nth: "t < length xs \<Longrightarrow> shift1 xs ! t = (if t = 0 then FNaN else xs ! (t - 1))"
  by (cases t) (simp_all add: shift1_def)

lemma length_pct_change: "length (pct_change xs) = length xs"
  by (simp add: pct_change_def length_shift1)

lemma length_log_ratio: "length (log_ratio xs) = length xs"
  by (simp add: log_ratio_def length_shift1)

lemma pct_change_nth:
  "t < length xs \<Longrightarrow>
   pct_change xs ! t = (if t = 0 then FNaN else fsub (fdiv (xs ! t) (xs ! (t - 1))) 1)"
  by (cases "xs ! t") (simp_all add: pct_change_def length_shift1 shift1_nth)

lemma log_ratio_nth:
  "t < length xs \<Longrightarrow>
   log_ratio xs ! t = (if t = 0 then FNaN else flog (fdiv (xs ! t) (xs ! (t - 1))))"
  by (cases "xs ! t") (simp_all add: log_ratio_def length_shift1 shift1_nth)


lemma series_frame_getitem:
  "df_getitem (series_frame ps ms vs) ''returns'' =
     Returns (map CNum (pct_change (map FNum (map snd ps))))"
  "df_getitem (series_frame ps ms vs) ''log_returns'' =
     Returns (map CNum (log_ratio (map FNum (map snd ps))))"
  by (simp_all add: df_getitem_def series_frame_def)

lemma series_frame_lengths:
  "length ms = length ps \<Longrightarrow> length vs = length ps \<Longrightarrow>
   c \<in> set (cols (series_frame ps ms vs)) \<Longrightarrow> length (snd c) = length ps"
  by (auto simp: series_frame_def length_pct_change length_log_ratio)

text \<open>
  Claim C1. A valid payload with \<open>N\<close> pairs in each of its three arrays is normalized
  into a series of \<open>N\<close> rows, every column \<open>N\<close> cells long. The cells of \<open>returns\<close>
  and \<open>log_returns\<close> are NaN at index 0; at every index \<open>t > 0\<close> they are the numbers
  \<open>price[t] / price[t-1] - 1\<close> and \<open>ln (price[t] / price[t-1])\<close>.
\<close>

theorem normalize_valid_series:
  assumes "valid_series data ps ms vs"
  shows "\<exists>df rs ls. normalize_series data = Returns df \<and> length (idx df) = length ps \<and>
           (\<forall>c \<in> set (cols df). length (snd c) = length ps) \<and>
           df_getitem df ''returns'' = Returns rs \<and>
           df_getitem df ''log_returns'' = Returns ls \<and>
           (\<forall>t < length ps.
              rs ! t = (if t = 0 then CNum FNaN
                        else CNum (FNum (snd (ps ! t) / snd (ps ! (t - 1)) - 1))) \<and>
              ls ! t = (if t = 0 then CNum FNaN
                        else CNum (FNum (ln (snd (ps ! t) / snd (ps ! (t - 1)))))))"
proof -
  from assms have wf: "wellformed_series data ps ms vs"
    and pos: "list_all (\<lambda>v. 0 < v) (map snd ps)"
    by (simp_all add: valid_series_def)
  from wf have len: "length ms = length ps" "length vs = length ps"
    by (auto simp: wellformed_series_def split: json.splits)
  let ?df = "series_frame ps ms vs"
  let ?xs = "map FNum (map snd ps)"
  have cells: "rs_t = (if t = 0 then CNum FNaN
                        else CNum (FNum (snd (ps ! t) / snd (ps ! (t - 1)) - 1))) \<and>
        ls_t = (if t = 0 then CNum FNaN
                        else CNum (FNum (ln (snd (ps ! t) / snd (ps ! (t - 1))))))"
    if t: "t < length ps" and "rs_t = map CNum (pct_change ?xs) ! t"
      and "ls_t = map CNum (log_ratio ?xs) ! t" for t rs_t ls_t
  proof (cases "t = 0")
    case True
    with that show ?thesis
      by (simp add: length_pct_change length_log_ratio pct_change_nth log_ratio_nth)
  next
    case False
    from pos t have a: "0 < snd (ps ! t)" by (simp add: list_all_length)
    from pos t False have b: "0 < snd (ps ! (t - 1))" by (simp add: list_all_length)
    from a b have r: "0 < snd (ps ! t) / snd (ps ! (t - 1))" by simp
    from that False a b r show ?thesis
      by (simp add: length_pct_change length_log_ratio pct_change_nth log_ratio_nth)
  qed
  show ?thesis
    apply (rule exI [of _ ?df])
    apply (rule exI [of _ "map CNum (pct_change ?xs)"])
    apply (rule exI [of _ "map CNum (log_ratio ?xs)"])
    using cells len
    by (simp add: normalize_wellformed [OF wf] series_frame_getitem series_frame_lengths)
      (simp add: series_frame_def)
qed

lemma sample_valid: "valid_series sample_payload sample_prices sample_caps sample_volumes"
  by (simp add: valid_series_def wellformed_series_def sample_payload_def chart_payload_def
      sample_prices_def sample_caps_def sample_volumes_def in_datetime_range_def day_ms_def)

theorem normalize_valid_series_witness:
  "valid_series sample_payload sample_prices sample_caps sample_volumes \<and>
   (\<exists>df rs ls. normalize_series sample_payload = Returns df \<and> length (idx df) = 3 \<and>
      df_getitem df ''returns'' = Returns rs \<and> df_getitem df ''log_returns'' = Returns ls \<and>
      rs ! 0 = CNum FNaN \<and> ls ! 0 = CNum FNaN \<and>
      rs ! 1 = CNum (FNum (110 / 100 - 1)) \<and> ls ! 2 = CNum (FNum (ln (121 / 110))))"
proof -
  have h: "valid_series sample_payload sample_prices sample_caps sample_volumes"
    by (rule sample_valid)
  from normalize_valid_series [OF h] obtain df rs ls where
    "normalize_series sample_payload = Returns df" "length (idx df) = length sample_prices"
    "df_getitem df ''returns'' = Returns rs" "df_getitem df ''log_returns'' = Returns ls"
    and cells: "\<forall>t < length sample_prices.
              rs ! t = (if t = 0 then CNum FNaN
                        else CNum (FNum (snd (sample_prices ! t) / snd (sample_prices ! (t - 1)) - 1))) \<and>
              ls ! t = (if t = 0 then CNum FNaN
                        else CNum (FNum (ln (snd (sample_prices ! t) / snd (sample_prices ! (t - 1))))))"
    by blast
  moreover from cells have "rs ! 0 = CNum FNaN" "ls ! 0 = CNum FNaN"
    by (simp_all add: sample_prices_def)
  moreover from cells [rule_format, of 1] have "rs ! 1 = CNum (FNum (110 / 100 - 1))"
    by (simp add: sample_prices_def)
  moreover from cells [rule_format, of 2] have "ls ! 2 = CNum (FNum (ln (121 / 110)))"
    by (simp add: sample_prices_def)
  ultimately show ?thesis using h by (auto simp: sample_prices_def)
qed

section \<open>Log returns\<close>

lemma flog_fdiv_num:
  "flog (fdiv (FNum a) (FNum b)) =
     (if 0 < a \<and> 0 < b \<or> a < 0 \<and> b < 0 then FNum (ln (a / b))
      else if a < 0 \<and> 0 \<le> b \<or> 0 < a \<and> b < 0 \<or> a = 0 \<and> b = 0 then FNaN
      else if a = 0 then FNegInf else FPosInf)"
  by (auto simp: zero_less_divide_iff divide_less_0_iff not_less)

text \<open>
  Claim C2, as amended. In the series normalized from a well-formed payload, at every
  index \<open>t > 0\<close>: \<open>log_returns[t]\<close> is \<open>ln (price[t] / price[t-1])\<close> when the two
  prices are both positive or both negative, and it is NaN exactly when \<open>price[t]\<close> is
  negative and \<open>price[t-1]\<close> is not, or \<open>price[t]\<close> is positive and \<open>price[t-1]\<close>
  negative, or both are zero. (Elsewhere it is an infinity.)
\<close>

theorem log_returns_wellformed:
  assumes "wellformed_series data ps ms vs"
  shows "\<exists>df ls. normalize_series data = Returns df \<and>
           df_getitem df ''log_returns'' = Returns ls \<and> length ls = length ps \<and>
           (\<forall>t. 0 < t \<and> t < length ps \<longrightarrow>
              (0 < snd (ps ! t) \<and> 0 < snd (ps ! (t - 1)) \<or>
               snd (ps ! t) < 0 \<and> snd (ps ! (t - 1)) < 0 \<longrightarrow>
                 ls ! t = CNum (FNum (ln (snd (ps ! t) / snd (ps ! (t - 1)))))) \<and>
              ((ls ! t = CNum FNaN) =
                 (snd (ps ! t) < 0 \<and> 0 \<le> snd (ps ! (t - 1)) \<or>
                  0 < snd (ps ! t) \<and> snd (ps ! (t - 1)) < 0 \<or>
                  snd (ps ! t) = 0 \<and> snd (ps ! (t - 1)) = 0)))"
proof -
  let ?xs = "map FNum (map snd ps)"
  let ?ls = "map CNum (log_ratio ?xs)"
  have cell: "?ls ! t = CNum (flog (fdiv (FNum (snd (ps ! t))) (FNum (snd (ps ! (t - 1))))))"
    if "0 < t" "t < length ps" for t
    using that by (simp add: length_log_ratio log_ratio_nth)
  show ?thesis
    apply (rule exI [of _ "series_frame ps ms vs"])
    apply (rule exI [of _ ?ls])
    apply (simp only: normalize_wellformed [OF assms] series_frame_getitem)
    apply (intro conjI allI impI refl)
      apply (simp add: length_log_ratio)
     apply (simp only: cell flog_fdiv_num)
     apply simp
    apply (simp only: cell flog_fdiv_num)
    apply (auto split: if_splits)
    done
qed

theorem log_returns_wellformed_witness:
  "wellformed_series sample_payload sample_prices sample_caps sample_volumes \<and>
   (\<exists>df ls. normalize_series sample_payload = Returns df \<and>
      df_getitem df ''log_returns'' = Returns ls \<and> length ls = 3 \<and>
      ls ! 1 = CNum (FNum (ln (110 / 100))) \<and> ls ! 1 \<noteq> CNum FNaN)"
proof -
  have h: "wellformed_series sample_payload sample_prices sample_caps sample_volumes"
    using sample_valid by (simp add: valid_series_def)
  from log_returns_wellformed [OF h] obtain df ls where
    *: "normalize_series sample_payload = Returns df" "df_getitem df ''log_returns'' = Returns ls"
       "length ls = length sample_prices"
    and cells: "\<forall>t. 0 < t \<and> t < length sample_prices \<longrightarrow>
              (0 < snd (sample_prices ! t) \<and> 0 < snd (sample_prices ! (t - 1)) \<or>
               snd (sample_prices ! t) < 0 \<and> snd (sample_prices ! (t - 1)) < 0 \<longrightarrow>
                 ls ! t = CNum (FNum (ln (snd (sample_prices ! t) / snd (sample_prices ! (t - 1)))))) \<and>
              ((ls ! t = CNum FNaN) =
                 (snd (sample_prices ! t) < 0 \<and> 0 \<le> snd (sample_prices ! (t - 1)) \<or>
                  0 < snd (sample_prices ! t) \<and> snd (sample_prices ! (t - 1)) < 0 \<or>
                  snd (sample_prices ! t) = 0 \<and> snd (sample_prices ! (t - 1)) = 0))"
    by blast
  from cells [rule_format, of 1] have "ls ! 1 = CNum (FNum (ln (110 / 100)))"
    by (simp add: sample_prices_def)
  with * h show ?thesis by (auto simp: sample_prices_def)
qed

text \<open>
  The claim as the specification states it fails: after a price of \<open>-1\<close>, which is not
  positive, a price of \<open>-2\<close> gives the log return \<open>ln 2\<close>, not a missing value.
\<close>

theorem log_returns_negative_prices:
  "normalize_series negative_payload = Returns (series_frame negative_prices negative_prices negative_prices)
   \<and> snd (negative_prices ! 0) \<le> 0
   \<and> df_getitem (series_frame negative_prices negative_prices negative_prices) ''log_returns''
       = Returns [CNum FNaN, CNum (FNum (ln 2))]"
proof -
  have wf: "wellformed_series negative_payload negative_prices negative_prices negative_prices"
    by (simp add: wellformed_series_def negative_payload_def chart_payload_def
        negative_prices_def in_datetime_range_def day_ms_def)
  have "log_ratio [FNum (- 1), FNum (- 2)] = [FNaN, FNum (ln 2)]"
    by (simp add: log_ratio_def shift1_def)
  then show ?thesis
    by (simp add: normalize_wellformed [OF wf] series_frame_getitem) (simp add: negative_prices_def)
qed

section \<open>get_historical_data and its handler\<close>

lemma df_empty_empty_frame: "df_empty empty_frame"
  by (simp add: df_empty_def empty_frame_def)

lemma get_historical_data_caught:
  "series_try w crypto_id vs_currency days = Raises e \<Longrightarrow> is_RequestException e \<Longrightarrow>
   get_historical_data w crypto_id vs_currency days =
     ([HttpGet (series_url crypto_id) (series_params vs_currency days),
       Print (FetchErr crypto_id e)], Returns empty_frame)"
  by (simp add: get_historical_data_def)

lemma get_historical_data_returns:
  "series_try w crypto_id vs_currency days = Returns df \<Longrightarrow>
   get_historical_data w crypto_id vs_currency days =
     ([HttpGet (series_url crypto_id) (series_params vs_currency days),
       Print (FetchOk crypto_id (length (idx df)))], Returns df)"
  by (simp add: get_historical_data_def)

lemma get_historical_data_propagates:
  "series_try w crypto_id vs_currency days = Raises e \<Longrightarrow> \<not> is_RequestException e \<Longrightarrow>
   get_historical_data w crypto_id vs_currency days =
     ([HttpGet (series_url crypto_id) (series_params vs_currency days)], Raises e)"
  by (simp add: get_historical_data_def)

text \<open>
  Claim C3, as amended. \<open>get_historical_data\<close> returns an empty series, and raises
  nothing, when \<^verbatim>\<open>session.get\<close>, \<^verbatim>\<open>raise_for_status\<close> or \<^verbatim>\<open>response.json()\<close> raises a
  \<^verbatim>\<open>RequestException\<close>, and when the decoded payload holds the three arrays with no
  entry in them.
\<close>

theorem get_historical_data_empty_series:
  assumes "(\<exists>e. fetch_json w (series_url crypto_id) (series_params vs_currency days) = Raises e
                \<and> is_RequestException e)
         \<or> (\<exists>data. fetch_json w (series_url crypto_id) (series_params vs_currency days) = Returns data
                \<and> wellformed_series data [] [] [])"
  shows "\<exists>evs df. get_historical_data w crypto_id vs_currency days = (evs, Returns df) \<and> df_empty df"
  using assms
proof (elim disjE exE conjE)
  fix e
  assume "fetch_json w (series_url crypto_id) (series_params vs_currency days) = Raises e"
    and "is_RequestException e"
  then show ?thesis
    by (simp add: get_historical_data_caught series_try_def df_empty_empty_frame)
next
  fix data
  assume "fetch_json w (series_url crypto_id) (series_params vs_currency days) = Returns data"
    and "wellformed_series data [] [] []"
  then have "series_try w crypto_id vs_currency days = Returns (series_frame [] [] [])"
    by (simp add: series_try_def normalize_wellformed)
  then show ?thesis
    by (simp add: get_historical_data_returns df_empty_def series_frame_def)
qed

lemma fetch_json_world_of:
  "fetch_json (world_of answer) url params =
     (case answer url of Inl e \<Rightarrow> Raises e
      | Inr r \<Rightarrow> obind (raise_for_status r)
          (\<lambda>_. case json_result r of Inl e \<Rightarrow> Raises e | Inr data \<Rightarrow> Returns data))"
  by (simp add: fetch_json_def world_of_def)

theorem get_historical_data_empty_series_witness:
  "fetch_json undecodable_world (series_url ''bitcoin'') (series_params ''usd'' 365)
     = Raises JSONDecodeError
   \<and> is_RequestException JSONDecodeError
   \<and> (\<exists>evs df. get_historical_data undecodable_world ''bitcoin'' ''usd'' 365 = (evs, Returns df)
         \<and> df_empty df)"
proof -
  have h: "fetch_json undecodable_world (series_url ''bitcoin'') (series_params ''usd'' 365)
     = Raises JSONDecodeError"
    by (simp add: undecodable_world_def fetch_json_world_of raise_for_status_def)
  then have "(\<exists>e. fetch_json undecodable_world (series_url ''bitcoin'') (series_params ''usd'' 365) = Raises e
                \<and> is_RequestException e)
         \<or> (\<exists>data. fetch_json undecodable_world (series_url ''bitcoin'') (series_params ''usd'' 365) = Returns data
                \<and> wellformed_series data [] [] [])"
    by simp
  from get_historical_data_empty_series [OF this] h show ?thesis by simp
qed

text \<open>
  The claim as the specification states it fails: a payload that is decoded but lacks
  the expected arrays (here \<^verbatim>\<open>{}\<close>) raises \<^verbatim>\<open>KeyError\<close> at \<^verbatim>\<open>data['prices']\<close>, which
  the handler does not catch, so the exception reaches the caller.
\<close>

theorem get_historical_data_missing_arrays:
  "get_historical_data no_arrays_world ''bitcoin'' ''usd'' 365 =
     ([HttpGet (series_url ''bitcoin'') (series_params ''usd'' 365)], Raises KeyError)"
proof -
  have "fetch_json no_arrays_world (series_url ''bitcoin'') (series_params ''usd'' 365)
     = Returns (JObj [])"
    by (simp add: no_arrays_world_def fetch_json_world_of raise_for_status_def ok_response_def)
  moreover have "normalize_series (JObj []) = Raises KeyError"
    by (simp add: normalize_series_def comprehension_def)
  ultimately have "series_try no_arrays_world ''bitcoin'' ''usd'' 365 = Raises KeyError"
    by (simp add: series_try_def)
  then show ?thesis
    by (simp add: get_historical_data_propagates)
qed

section \<open>get_multiple_cryptos\<close>

lemma hist_cases:
  "hist w days c =
     (case series_try w c ''usd'' days of
        Returns df \<Rightarrow> Returns df
      | Raises e \<Rightarrow> if is_RequestException e then Returns empty_frame else Raises e
      | Unmodelled \<Rightarrow> Unmodelled)"
  by (simp add: hist_def get_historical_data_def Let_def split: outcome.splits)

lemma hist_fails: "fetch_fails w days c \<Longrightarrow> \<exists>df. hist w days c = Returns df \<and> df_empty df"
  by (auto simp: hist_cases fetch_fails_def df_empty_empty_frame split: outcome.splits)

lemma hist_succeeds:
  "fetch_succeeds w days c = (\<exists>df. hist w days c = Returns df \<and> \<not> df_empty df)"
  by (auto simp: hist_cases fetch_succeeds_def df_empty_empty_frame split: outcome.splits)

lemma hist_empty_fails: "hist w days c = Returns df \<Longrightarrow> df_empty df \<Longrightarrow> fetch_fails w days c"
  by (auto simp: hist_cases fetch_fails_def split: outcome.splits if_splits)

lemma collect_loop_returns:
  "\<forall>e \<in> set dict. \<exists>df. hist w days (fst e) = Returns df \<Longrightarrow>
   snd (collect_loop w days dict res evs) = Returns (fold (collect_step w days) dict res)"
proof (induction dict arbitrary: res evs)
  case Nil
  then show ?case by simp
next
  case (Cons entry dict)
  obtain c k where entry: "entry = (c, k)" by (cases entry)
  from Cons.prems entry obtain df where df: "hist w days c = Returns df" by auto
  then obtain es where g: "get_historical_data w c ''usd'' days = (es, Returns df)"
    by (cases "get_historical_data w c ''usd'' days") (simp add: hist_def)
  from Cons.prems have rest: "\<forall>e \<in> set dict. \<exists>df. hist w days (fst e) = Returns df" by simp
  show ?case
    using Cons.IH [OF rest] by (simp add: entry g collect_step_def df tagged_def)
qed

lemma collect_loop_hist:
  "snd (collect_loop w days dict res evs) = Returns r \<Longrightarrow>
   \<forall>e \<in> set dict. \<exists>df. hist w days (fst e) = Returns df"
proof (induction dict arbitrary: res evs)
  case Nil
  then show ?case by simp
next
  case (Cons entry dict)
  obtain c k where entry: "entry = (c, k)" by (cases entry)
  obtain es out where g: "get_historical_data w c ''usd'' days = (es, out)"
    by (cases "get_historical_data w c ''usd'' days")
  from Cons.prems entry g obtain df where out: "out = Returns df"
    by (cases out) simp_all
  from g out have "hist w days c = Returns df" by (simp add: hist_def)
  moreover from Cons.prems have "\<forall>e \<in> set dict. \<exists>df. hist w days (fst e) = Returns df"
    by (auto simp: entry g out dest: Cons.IH)
  ultimately show ?case by (simp add: entry)
qed

lemma get_multiple_cryptos_fold:
  assumes "get_multiple_cryptos w dict days = (evs, Returns res)"
  shows "res = fold (collect_step w days) dict []"
proof -
  from assms have r: "snd (collect_loop w days dict [] []) = Returns res"
    by (simp add: get_multiple_cryptos_def)
  from collect_loop_returns [OF collect_loop_hist [OF r]] r show ?thesis by simp
qed

lemma df_empty_tagged: "df_empty (tagged df k) = (idx df = [])"
  by (cases "cols df") (simp_all add: df_empty_def tagged_def df_setitem_scalar_def df_setitem_def)

lemma collect_step_update:
  "hist w days c = Returns df \<Longrightarrow> \<not> df_empty df \<Longrightarrow>
   collect_step w days (c, k) res = AList.update k (tagged df k) res"
  by (simp add: collect_step_def)

lemma collect_step_skip:
  "\<not> fetch_succeeds w days c \<Longrightarrow> collect_step w days (c, k) res = res"
  by (auto simp: collect_step_def hist_succeeds split: outcome.splits)

lemma length_update_le: "length (AList.update k v al) \<le> Suc (length al)"
  by (induction al) auto

lemma fold_step_keys:
  "fst ` set (fold (collect_step w days) dict res) =
     fst ` set res \<union> {k. \<exists>c. (c, k) \<in> set dict \<and> fetch_succeeds w days c}"
proof (induction dict arbitrary: res)
  case Nil
  then show ?case by simp
next
  case (Cons entry dict)
  obtain c k where entry: "entry = (c, k)" by (cases entry)
  show ?case
  proof (cases "fetch_succeeds w days c")
    case True
    then obtain df where "hist w days c = Returns df" "\<not> df_empty df"
      by (auto simp: hist_succeeds)
    then have "collect_step w days (c, k) res = AList.update k (tagged df k) res"
      by (rule collect_step_update)
    with True show ?thesis
      unfolding entry fold_simps Cons.IH by (auto simp: dom_update)
  next
    case False
    then show ?thesis
      unfolding entry fold_simps Cons.IH by (auto simp: collect_step_skip)
  qed
qed

lemma collect_step_distinct:
  "distinct (map fst res) \<Longrightarrow> distinct (map fst (collect_step w days entry res))"
  by (simp add: collect_step_def distinct_update split: outcome.splits)

lemma collect_step_length: "length (collect_step w days entry res) \<le> Suc (length res)"
  by (simp add: collect_step_def length_update_le split: outcome.splits)

lemma fold_step_distinct:
  "distinct (map fst res) \<Longrightarrow> distinct (map fst (fold (collect_step w days) dict res))"
  by (induction dict arbitrary: res) (simp_all add: collect_step_distinct)

lemma fold_step_length:
  "length (fold (collect_step w days) dict res) \<le> length res + length dict"
proof (induction dict arbitrary: res)
  case Nil
  then show ?case by simp
next
  case (Cons entry dict)
  from Cons.IH [of "collect_step w days entry res"] collect_step_length [of w days entry res]
  show ?case by simp
qed

lemma fold_step_origin:
  "map_of (fold (collect_step w days) dict res) k = Some df \<Longrightarrow>
   map_of res k = Some df \<or>
   (\<exists>c df0. (c, k) \<in> set dict \<and> hist w days c = Returns df0 \<and> \<not> df_empty df0 \<and>
      df = tagged df0 k)"
proof (induction dict arbitrary: res)
  case Nil
  then show ?case by simp
next
  case (Cons entry dict)
  obtain c k' where entry: "entry = (c, k')" by (cases entry)
  from Cons.prems have "map_of (fold (collect_step w days) dict (collect_step w days (c, k') res)) k = Some df"
    by (simp add: entry)
  from Cons.IH [OF this] show ?case
  proof
    assume "map_of (collect_step w days (c, k') res) k = Some df"
    then show ?thesis
      by (auto simp: collect_step_def entry update_conv' split: outcome.splits if_splits)
  next
    assume "\<exists>c df0. (c, k) \<in> set dict \<and> hist w days c = Returns df0 \<and> \<not> df_empty df0 \<and>
      df = tagged df0 k"
    then show ?thesis by auto
  qed
qed

lemma fold_step_kept:
  "\<forall>e \<in> set dict. snd e = k \<longrightarrow> \<not> fetch_succeeds w days (fst e) \<Longrightarrow>
   map_of (fold (collect_step w days) dict res) k = map_of res k"
proof (induction dict arbitrary: res)
  case Nil
  then show ?case by simp
next
  case (Cons entry dict)
  obtain c k' where entry: "entry = (c, k')" by (cases entry)
  have "map_of (collect_step w days (c, k') res) k = map_of res k"
  proof (cases "fetch_succeeds w days c")
    case True
    with Cons.prems entry have "k' \<noteq> k" by auto
    then show ?thesis
      by (simp add: collect_step_def update_conv' split: outcome.splits)
  next
    case False
    then show ?thesis by (simp add: collect_step_skip)
  qed
  moreover from Cons.prems have "\<forall>e \<in> set dict. snd e = k \<longrightarrow> \<not> fetch_succeeds w days (fst e)"
    by simp
  ultimately show ?case
    unfolding entry fold_simps by (simp add: Cons.IH)
qed

lemma requests_of_append: "requests_of (a @ b) = requests_of a @ requests_of b"
  by (induction a rule: requests_of.induct) simp_all

lemma get_historical_data_requests:
  "requests_of (fst (get_historical_data w c cur days)) = [(series_url c, series_params cur days)]"
  by (simp add: get_historical_data_def Let_def split: outcome.splits)

lemma collect_loop_requests:
  "\<forall>e \<in> set dict. \<exists>df. hist w days (fst e) = Returns df \<Longrightarrow>
   requests_of (fst (collect_loop w days dict res evs)) =
     requests_of evs @ map (\<lambda>e. (series_url (fst e), series_params ''usd'' days)) dict"
proof (induction dict arbitrary: res evs)
  case Nil
  then show ?case by simp
next
  case (Cons entry dict)
  obtain c k where entry: "entry = (c, k)" by (cases entry)
  from Cons.prems entry obtain df where df: "hist w days c = Returns df" by auto
  then obtain es where g: "get_historical_data w c ''usd'' days = (es, Returns df)"
    by (cases "get_historical_data w c ''usd'' days") (simp add: hist_def)
  from get_historical_data_requests [of w c "''usd''" days] g
  have es: "requests_of es = [(series_url c, series_params ''usd'' days)]" by simp
  from Cons.prems have rest: "\<forall>e \<in> set dict. \<exists>df. hist w days (fst e) = Returns df" by simp
  show ?case
    by (simp add: entry g Cons.IH [OF rest] requests_of_append es)
qed

text \<open>
  Claim C4. Whenever \<open>get_multiple_cryptos\<close> returns, its result has at most as many
  entries as \<open>crypto_dict\<close> (and no key twice); every series stored in it is non-empty
  and is the series, with its ticker column, that the fetch of an asset of that ticker
  returned, so that a failed fetch leaves nothing in the result, no empty placeholder
  either; and a ticker all of whose assets failed is not a key of the result.
\<close>

theorem get_multiple_cryptos_output:
  assumes "get_multiple_cryptos w crypto_dict days = (evs, Returns results)"
  shows "length results \<le> length crypto_dict \<and> distinct (map fst results) \<and>
         (\<forall>k df. (k, df) \<in> set results \<longrightarrow>
            \<not> df_empty df \<and>
            (\<exists>c df0. (c, k) \<in> set crypto_dict \<and> hist w days c = Returns df0 \<and>
               \<not> df_empty df0 \<and> df = tagged df0 k)) \<and>
         (\<forall>k. (\<forall>c. (c, k) \<in> set crypto_dict \<longrightarrow> fetch_fails w days c) \<longrightarrow>
            k \<notin> fst ` set results)"
proof -
  have res: "results = fold (collect_step w days) crypto_dict []"
    using assms by (rule get_multiple_cryptos_fold)
  have len: "length results \<le> length crypto_dict"
    using fold_step_length [of w days crypto_dict "[]"] by (simp add: res)
  have dist: "distinct (map fst results)"
    unfolding res by (rule fold_step_distinct) simp
  have origin: "\<not> df_empty df \<and>
            (\<exists>c df0. (c, k) \<in> set crypto_dict \<and> hist w days c = Returns df0 \<and>
               \<not> df_empty df0 \<and> df = tagged df0 k)"
    if "(k, df) \<in> set results" for k df
  proof -
    from that dist have "map_of results k = Some df" by simp
    with fold_step_origin [of w days crypto_dict "[]" k df]
    obtain c df0 where *: "(c, k) \<in> set crypto_dict" "hist w days c = Returns df0"
      "\<not> df_empty df0" "df = tagged df0 k"
      by (auto simp: res)
    then have "\<not> df_empty df" using df_empty_tagged [of df0 k] by (simp add: df_empty_def)
    with * show ?thesis by blast
  qed
  have absent: "k \<notin> fst ` set results"
    if "\<forall>c. (c, k) \<in> set crypto_dict \<longrightarrow> fetch_fails w days c" for k
  proof
    assume "k \<in> fst ` set results"
    then obtain df where "(k, df) \<in> set results" by auto
    from origin [OF this] obtain c df0 where "(c, k) \<in> set crypto_dict"
      "hist w days c = Returns df0" "\<not> df_empty df0" by blast
    with that hist_fails [of w days c] show False by auto
  qed
  from len dist origin absent show ?thesis by blast
qed

lemma hist_raises:
  "series_try w c ''usd'' days = Raises e \<Longrightarrow> \<not> is_RequestException e \<Longrightarrow>
   hist w days c = Raises e"
  by (simp add: hist_cases)

lemma collect_loop_raises:
  "\<forall>x \<in> set pre. \<exists>df. hist w days (fst x) = Returns df \<Longrightarrow> hist w days c = Raises e \<Longrightarrow>
   snd (collect_loop w days (pre @ (c, k) # post) res evs) = Raises e \<and>
   requests_of (fst (collect_loop w days (pre @ (c, k) # post) res evs)) =
     requests_of evs @
     map (\<lambda>x. (series_url (fst x), series_params ''usd'' days)) (pre @ [(c, k)])"
proof (induction pre arbitrary: res evs)
  case Nil
  then obtain es where g: "get_historical_data w c ''usd'' days = (es, Raises e)"
    by (cases "get_historical_data w c ''usd'' days") (simp add: hist_def)
  from get_historical_data_requests [of w c "''usd''" days] g
  have "requests_of es = [(series_url c, series_params ''usd'' days)]" by simp
  with g show ?case by (simp add: requests_of_append)
next
  case (Cons entry pre)
  obtain c' k' where entry: "entry = (c', k')" by (cases entry)
  from Cons.prems entry obtain df where "hist w days c' = Returns df" by auto
  then obtain es where g: "get_historical_data w c' ''usd'' days = (es, Returns df)"
    by (cases "get_historical_data w c' ''usd'' days") (simp add: hist_def)
  from get_historical_data_requests [of w c' "''usd''" days] g
  have es: "requests_of es = [(series_url c', series_params ''usd'' days)]" by simp
  from Cons.prems have rest: "\<forall>x \<in> set pre. \<exists>df. hist w days (fst x) = Returns df" by simp
  show ?case
    using Cons.IH [OF rest Cons.prems(2)] by (simp add: entry g requests_of_append es)
qed

text \<open>
  Claim C5, as amended. If the fetch of every asset either yields an empty series (the
  request raises a \<^verbatim>\<open>RequestException\<close>, or the series has no row) or succeeds, then
  \<open>get_multiple_cryptos\<close> raises nothing: it returns, its keys are exactly the tickers
  of the assets whose fetch succeeded, and it has sent the request of every asset of
  \<open>crypto_dict\<close>, in order, those after a failed one included. If instead the fetch of
  an asset raises an exception of another class, after assets whose fetches did one of
  the two, then \<open>get_multiple_cryptos\<close> raises that exception, and no asset after that
  one has been requested.
\<close>

theorem get_multiple_cryptos_partial_failure:
  "((\<forall>x \<in> set crypto_dict. fetch_fails w days (fst x) \<or> fetch_succeeds w days (fst x)) \<longrightarrow>
      (\<exists>evs results. get_multiple_cryptos w crypto_dict days = (evs, Returns results) \<and>
         fst ` set results = {k. \<exists>c. (c, k) \<in> set crypto_dict \<and> fetch_succeeds w days c} \<and>
         requests_of evs =
           map (\<lambda>x. (series_url (fst x), series_params ''usd'' days)) crypto_dict)) \<and>
   (\<forall>pre c k post e.
      crypto_dict = pre @ (c, k) # post \<and>
      (\<forall>x \<in> set pre. fetch_fails w days (fst x) \<or> fetch_succeeds w days (fst x)) \<and>
      series_try w c ''usd'' days = Raises e \<and> \<not> is_RequestException e \<longrightarrow>
      (\<exists>evs. get_multiple_cryptos w crypto_dict days = (evs, Raises e) \<and>
         requests_of evs =
           map (\<lambda>x. (series_url (fst x), series_params ''usd'' days)) (pre @ [(c, k)])))"
proof (intro conjI impI allI)
  assume "\<forall>x \<in> set crypto_dict. fetch_fails w days (fst x) \<or> fetch_succeeds w days (fst x)"
  then have all: "\<forall>x \<in> set crypto_dict. \<exists>df. hist w days (fst x) = Returns df"
    using hist_fails hist_succeeds by blast
  obtain evs out where run: "get_multiple_cryptos w crypto_dict days = (evs, out)"
    by (cases "get_multiple_cryptos w crypto_dict days")
  from collect_loop_returns [OF all, of "[]" "[]"] run
  have out: "out = Returns (fold (collect_step w days) crypto_dict [])"
    by (simp add: get_multiple_cryptos_def)
  from collect_loop_requests [OF all, of "[]" "[]"] run
  have "requests_of evs = map (\<lambda>x. (series_url (fst x), series_params ''usd'' days)) crypto_dict"
    by (simp add: get_multiple_cryptos_def)
  with run out fold_step_keys [of w days crypto_dict "[]"]
  show "\<exists>evs results. get_multiple_cryptos w crypto_dict days = (evs, Returns results) \<and>
         fst ` set results = {k. \<exists>c. (c, k) \<in> set crypto_dict \<and> fetch_succeeds w days c} \<and>
         requests_of evs =
           map (\<lambda>x. (series_url (fst x), series_params ''usd'' days)) crypto_dict"
    by simp
next
  fix pre c k post e
  assume h: "crypto_dict = pre @ (c, k) # post \<and>
      (\<forall>x \<in> set pre. fetch_fails w days (fst x) \<or> fetch_succeeds w days (fst x)) \<and>
      series_try w c ''usd'' days = Raises e \<and> \<not> is_RequestException e"
  then have before: "\<forall>x \<in> set pre. \<exists>df. hist w days (fst x) = Returns df"
    using hist_fails hist_succeeds by blast
  from h have here: "hist w days c = Raises e" by (simp add: hist_raises)
  from h have dict: "crypto_dict = pre @ (c, k) # post" by simp
  obtain evs out where run: "get_multiple_cryptos w (pre @ (c, k) # post) days = (evs, out)"
    by (cases "get_multiple_cryptos w (pre @ (c, k) # post) days")
  from collect_loop_raises [OF before here, of k post "[]" "[]"] run
  have "out = Raises e \<and> requests_of evs =
           map (\<lambda>x. (series_url (fst x), series_params ''usd'' days)) (pre @ [(c, k)])"
    by (simp add: get_multiple_cryptos_def)
  with run show "\<exists>evs. get_multiple_cryptos w crypto_dict days = (evs, Raises e) \<and>
         requests_of evs =
           map (\<lambda>x. (series_url (fst x), series_params ''usd'' days)) (pre @ [(c, k)])"
    unfolding dict by blast
qed

lemma getitem_tagged:
  "df_getitem (tagged df k) ''symbol'' = Returns (replicate (length (idx (tagged df k))) (CStr k))"
  by (simp add: df_getitem_def tagged_def df_setitem_scalar_def df_setitem_def update_conv')

text \<open>
  Claim C8. In every series stored in the result under the key \<open>k\<close>, the column
  \<open>symbol\<close> exists and holds the string \<open>k\<close> on every row.
\<close>

theorem get_multiple_cryptos_symbol:
  assumes "get_multiple_cryptos w crypto_dict days = (evs, Returns results)"
    and "(k, df) \<in> set results"
  shows "df_getitem df ''symbol'' = Returns (replicate (length (idx df)) (CStr k))"
proof -
  have res: "results = fold (collect_step w days) crypto_dict []"
    using assms(1) by (rule get_multiple_cryptos_fold)
  have "distinct (map fst results)"
    unfolding res by (rule fold_step_distinct) simp
  with assms(2) have "map_of results k = Some df" by simp
  with fold_step_origin [of w days crypto_dict "[]" k df]
  obtain df0 where "df = tagged df0 k" by (auto simp: res)
  then show ?thesis by (simp add: getitem_tagged)
qed

lemma fold_step_overwrite:
  assumes "hist w days c = Returns df" "\<not> df_empty df"
    and "\<forall>e \<in> set post. snd e = k \<longrightarrow> \<not> fetch_succeeds w days (fst e)"
  shows "map_of (fold (collect_step w days) (pre @ (c, k) # post) res) k = Some (tagged df k)"
  using assms by (simp add: fold_step_kept collect_step_update update_conv')

lemma fold_step_fewer:
  assumes "\<not> distinct (map snd dict)"
  shows "length (fold (collect_step w days) dict []) < length dict"
proof -
  let ?res = "fold (collect_step w days) dict []"
  have "distinct (map fst ?res)" by (rule fold_step_distinct) simp
  then have "length ?res = card (fst ` set ?res)"
    using distinct_card [of "map fst ?res"] by simp
  also have "\<dots> \<le> card (snd ` set dict)"
    by (rule card_mono) (auto simp: fold_step_keys intro: rev_image_eqI)
  also have "\<dots> < length dict"
    using assms card_distinct [of "map snd dict"] card_length [of "map snd dict"] by fastforce
  finally show ?thesis .
qed

text \<open>
  Claim C10. The result is keyed by ticker: when two entries of \<open>crypto_dict\<close> have the
  ticker \<open>k\<close> and the fetch of the later one succeeds (no successful entry of that
  ticker after it), the series stored under \<open>k\<close> is the later one's, whatever the
  earlier fetch returned, and the result has strictly fewer entries than \<open>crypto_dict\<close>.
\<close>

theorem get_multiple_cryptos_same_ticker:
  assumes "get_multiple_cryptos w (pre @ (c1, k) # mid @ (c2, k) # post) days = (evs, Returns results)"
    and "hist w days c2 = Returns df2" "\<not> df_empty df2"
    and "\<forall>e \<in> set post. snd e = k \<longrightarrow> \<not> fetch_succeeds w days (fst e)"
  shows "map_of results k = Some (tagged df2 k) \<and>
         length results < length (pre @ (c1, k) # mid @ (c2, k) # post)"
proof -
  let ?dict = "pre @ (c1, k) # mid @ (c2, k) # post"
  have res: "results = fold (collect_step w days) ?dict []"
    using assms(1) by (rule get_multiple_cryptos_fold)
  have "map_of (fold (collect_step w days) ((pre @ (c1, k) # mid) @ (c2, k) # post) []) k
          = Some (tagged df2 k)"
    using assms(2-4) by (rule fold_step_overwrite)
  moreover have "\<not> distinct (map snd ?dict)" by simp
  then have "length (fold (collect_step w days) ?dict []) < length ?dict"
    by (rule fold_step_fewer)
  ultimately show ?thesis by (simp add: res)
qed

lemma sample_frame_not_empty: "\<not> df_empty sample_frame"
  by (simp add: df_empty_def sample_frame_def series_frame_def sample_prices_def)

lemma series_try_mixed_bitcoin:
  "series_try mixed_world ''bitcoin'' ''usd'' days = Raises ConnectionError"
  by (simp add: series_try_def mixed_world_def fetch_json_world_of)

lemma series_try_mixed_ethereum:
  "series_try mixed_world ''ethereum'' ''usd'' days = Returns sample_frame"
  using normalize_wellformed [of sample_payload sample_prices sample_caps sample_volumes] sample_valid
  by (simp add: series_try_def mixed_world_def fetch_json_world_of series_url_def
      raise_for_status_def ok_response_def valid_series_def sample_frame_def)

lemma mixed_fails: "fetch_fails mixed_world days ''bitcoin''"
  by (simp add: fetch_fails_def series_try_mixed_bitcoin)

lemma mixed_succeeds: "fetch_succeeds mixed_world days ''ethereum''"
  by (simp add: fetch_succeeds_def series_try_mixed_ethereum sample_frame_not_empty)

lemma mixed_not_succeeds: "\<not> fetch_succeeds mixed_world days ''bitcoin''"
  by (simp add: fetch_succeeds_def series_try_mixed_bitcoin)

lemma mixed_run:
  "\<exists>evs. get_multiple_cryptos mixed_world two_assets 3 =
     (evs, Returns [(''ETH'', tagged sample_frame ''ETH'')])"
  by (simp add: get_multiple_cryptos_def two_assets_def get_historical_data_def
      series_try_mixed_bitcoin series_try_mixed_ethereum sample_frame_not_empty
      df_empty_empty_frame tagged_def)

theorem get_multiple_cryptos_output_witness:
  "\<exists>evs results. get_multiple_cryptos mixed_world two_assets 3 = (evs, Returns results) \<and>
     fetch_fails mixed_world 3 ''bitcoin'' \<and> length results \<le> 2 \<and>
     ''BTC'' \<notin> fst ` set results"
proof -
  from mixed_run obtain evs where
    run: "get_multiple_cryptos mixed_world two_assets 3 =
      (evs, Returns [(''ETH'', tagged sample_frame ''ETH'')])" ..
  have "\<forall>c. (c, ''BTC'') \<in> set two_assets \<longrightarrow> fetch_fails mixed_world 3 c"
    by (simp add: two_assets_def mixed_fails)
  with get_multiple_cryptos_output [OF run] run mixed_fails [of 3] show ?thesis
    by (simp add: two_assets_def)
qed

theorem get_multiple_cryptos_partial_failure_witness:
  "fetch_fails mixed_world 3 ''bitcoin'' \<and> fetch_succeeds mixed_world 3 ''ethereum'' \<and>
   (\<exists>evs results. get_multiple_cryptos mixed_world two_assets 3 = (evs, Returns results) \<and>
      fst ` set results = {''ETH''} \<and>
      map fst (requests_of evs) = [series_url ''bitcoin'', series_url ''ethereum''])"
proof -
  have h: "\<forall>x \<in> set two_assets. fetch_fails mixed_world 3 (fst x) \<or> fetch_succeeds mixed_world 3 (fst x)"
    by (simp add: two_assets_def mixed_fails mixed_succeeds)
  have keys: "{k. \<exists>c. (c, k) \<in> set two_assets \<and> fetch_succeeds mixed_world 3 c} = {''ETH''}"
    by (auto simp: two_assets_def mixed_succeeds mixed_not_succeeds)
  have reqs: "map fst (map (\<lambda>x. (series_url (fst x), series_params ''usd'' 3)) two_assets)
      = [series_url ''bitcoin'', series_url ''ethereum'']"
    by (simp add: two_assets_def)
  from get_multiple_cryptos_partial_failure [where crypto_dict = two_assets
      and w = mixed_world and days = 3, THEN conjunct1, THEN mp, OF h]
  obtain evs where
    "\<exists>results. get_multiple_cryptos mixed_world two_assets 3 = (evs, Returns results) \<and>
      fst ` set results = {k. \<exists>c. (c, k) \<in> set two_assets \<and> fetch_succeeds mixed_world 3 c} \<and>
      requests_of evs = map (\<lambda>x. (series_url (fst x), series_params ''usd'' 3)) two_assets" ..
  then obtain results where
    b: "get_multiple_cryptos mixed_world two_assets 3 = (evs, Returns results) \<and>
      fst ` set results = {k. \<exists>c. (c, k) \<in> set two_assets \<and> fetch_succeeds mixed_world 3 c} \<and>
      requests_of evs = map (\<lambda>x. (series_url (fst x), series_params ''usd'' 3)) two_assets" ..
  from b have run: "get_multiple_cryptos mixed_world two_assets 3 = (evs, Returns results)"
    by (rule conjunct1)
  from b have "fst ` set results =
      {k. \<exists>c. (c, k) \<in> set two_assets \<and> fetch_succeeds mixed_world 3 c}"
    by (rule conjunct2 [THEN conjunct1])
  then have k: "fst ` set results = {''ETH''}" by (simp only: keys)
  from b have "requests_of evs =
      map (\<lambda>x. (series_url (fst x), series_params ''usd'' 3)) two_assets"
    by (rule conjunct2 [THEN conjunct2])
  then have r: "map fst (requests_of evs) = [series_url ''bitcoin'', series_url ''ethereum'']"
    by (simp only: reqs)
  show ?thesis
    apply (intro conjI)
      apply (rule mixed_fails)
     apply (rule mixed_succeeds)
    apply (rule exI [of _ evs])
    apply (rule exI [of _ results])
    apply (intro conjI run k r)
    done
qed

text \<open>
  The claim as the specification states it fails: when the fetch of bitcoin fails on a
  payload without the expected arrays, while the fetch of ethereum would succeed, the
  \<^verbatim>\<open>KeyError\<close> leaves \<open>get_multiple_cryptos\<close> before ethereum is requested, and the
  caller gets the exception and no collection.
\<close>

theorem get_multiple_cryptos_malformed_payload:
  "fetch_succeeds malformed_first_world 3 ''ethereum'' \<and>
   get_multiple_cryptos malformed_first_world two_assets 3 =
     ([Print (Fetching ''BTC'' ''bitcoin''),
       HttpGet (series_url ''bitcoin'') (series_params ''usd'' 3)], Raises KeyError)"
proof -
  have "normalize_series (JObj []) = Raises KeyError"
    by (simp add: normalize_series_def comprehension_def)
  then have "series_try malformed_first_world ''bitcoin'' ''usd'' 3 = Raises KeyError"
    by (simp add: series_try_def malformed_first_world_def fetch_json_world_of
        raise_for_status_def ok_response_def)
  then have run: "get_multiple_cryptos malformed_first_world two_assets 3 =
     ([Print (Fetching ''BTC'' ''bitcoin''),
       HttpGet (series_url ''bitcoin'') (series_params ''usd'' 3)], Raises KeyError)"
    by (simp add: get_multiple_cryptos_def two_assets_def get_historical_data_propagates)
  have "series_try malformed_first_world ''ethereum'' ''usd'' 3 = Returns sample_frame"
    using normalize_wellformed [of sample_payload sample_prices sample_caps sample_volumes]
      sample_valid
    by (simp add: series_try_def malformed_first_world_def fetch_json_world_of series_url_def
        raise_for_status_def ok_response_def valid_series_def sample_frame_def)
  then have ok: "fetch_succeeds malformed_first_world 3 ''ethereum''"
    by (simp add: fetch_succeeds_def sample_frame_not_empty)
  from ok run show ?thesis by (intro conjI)
qed

theorem get_multiple_cryptos_symbol_witness:
  "\<exists>evs results df. get_multiple_cryptos mixed_world two_assets 3 = (evs, Returns results) \<and>
     (''ETH'', df) \<in> set results \<and> length (idx df) = 3 \<and>
     df_getitem df ''symbol'' = Returns [CStr ''ETH'', CStr ''ETH'', CStr ''ETH'']"
proof -
  from mixed_run obtain evs where
    run: "get_multiple_cryptos mixed_world two_assets 3 =
      (evs, Returns [(''ETH'', tagged sample_frame ''ETH'')])" ..
  have mem: "(''ETH'', tagged sample_frame ''ETH'') \<in> set [(''ETH'', tagged sample_frame ''ETH'')]"
    by simp
  have len: "length (idx (tagged sample_frame ''ETH'')) = 3"
    by (simp add: tagged_def df_setitem_scalar_def df_setitem_def sample_frame_def
        series_frame_def sample_prices_def)
  from get_multiple_cryptos_symbol [OF run mem] len
  have "df_getitem (tagged sample_frame ''ETH'') ''symbol''
          = Returns [CStr ''ETH'', CStr ''ETH'', CStr ''ETH'']"
    by (simp add: numeral_3_eq_3)
  with run mem len show ?thesis by blast
qed

lemma one_day_frame_not_empty: "\<not> df_empty one_day_frame"
  by (simp add: df_empty_def one_day_frame_def series_frame_def one_day_def)

lemma one_day_wellformed: "wellformed_series one_day_payload one_day one_day one_day"
  by (simp add: wellformed_series_def one_day_payload_def chart_payload_def one_day_def
      in_datetime_range_def)

lemma series_try_both_bitcoin:
  "series_try both_ok_world ''bitcoin'' ''usd'' days = Returns sample_frame"
  using normalize_wellformed [of sample_payload sample_prices sample_caps sample_volumes] sample_valid
  by (simp add: series_try_def both_ok_world_def fetch_json_world_of
      raise_for_status_def ok_response_def valid_series_def sample_frame_def)

lemma series_try_both_ethereum:
  "series_try both_ok_world ''ethereum'' ''usd'' days = Returns one_day_frame"
  using normalize_wellformed [OF one_day_wellformed]
  by (simp add: series_try_def both_ok_world_def fetch_json_world_of series_url_def
      raise_for_status_def ok_response_def one_day_frame_def)

lemma both_run:
  "\<exists>evs. get_multiple_cryptos both_ok_world same_ticker 3 =
     (evs, Returns [(''XBT'', tagged one_day_frame ''XBT'')])"
  by (simp add: get_multiple_cryptos_def same_ticker_def get_historical_data_def
      series_try_both_bitcoin series_try_both_ethereum sample_frame_not_empty
      one_day_frame_not_empty tagged_def)

theorem get_multiple_cryptos_same_ticker_witness:
  "\<exists>evs results. get_multiple_cryptos both_ok_world same_ticker 3 = (evs, Returns results) \<and>
     hist both_ok_world 3 ''bitcoin'' = Returns sample_frame \<and> \<not> df_empty sample_frame \<and>
     hist both_ok_world 3 ''ethereum'' = Returns one_day_frame \<and> \<not> df_empty one_day_frame \<and>
     map_of results ''XBT'' = Some (tagged one_day_frame ''XBT'') \<and>
     length results < length same_ticker"
proof -
  from both_run obtain evs where
    "get_multiple_cryptos both_ok_world same_ticker 3 =
      (evs, Returns [(''XBT'', tagged one_day_frame ''XBT'')])" ..
  then have run: "get_multiple_cryptos both_ok_world
       ([] @ (''bitcoin'', ''XBT'') # [] @ (''ethereum'', ''XBT'') # []) 3 =
      (evs, Returns [(''XBT'', tagged one_day_frame ''XBT'')])"
    by (simp add: same_ticker_def)
  have h1: "hist both_ok_world 3 ''bitcoin'' = Returns sample_frame"
    by (simp add: hist_cases series_try_both_bitcoin)
  have h2: "hist both_ok_world 3 ''ethereum'' = Returns one_day_frame"
    by (simp add: hist_cases series_try_both_ethereum)
  have h3: "\<forall>e \<in> set []. snd e = ''XBT'' \<longrightarrow> \<not> fetch_succeeds both_ok_world 3 (fst e)"
    by simp
  from get_multiple_cryptos_same_ticker [OF run h2 one_day_frame_not_empty h3]
    run h1 h2 sample_frame_not_empty one_day_frame_not_empty
  show ?thesis by (simp add: same_ticker_def)
qed

section \<open>save_data\<close>

lemma length_digits: "length (digits k n) = k"
  by (induction k arbitrary: n) simp_all

lemma length_strftime: "length (strftime d) = 15"
  by (simp add: strftime_def length_digits)

lemma written_append: "written (a @ b) = written a @ written b"
  by (induction a rule: written.induct) simp_all

lemma clock_reads_append: "clock_reads (a @ b) = clock_reads a + clock_reads b"
  by (induction a rule: clock_reads.induct) simp_all

lemma to_csv_cases:
  "to_csv w path df =
     (case to_csv_error w path of None \<Rightarrow> ([ToCsv path df], Returns ()) | Some e \<Rightarrow> ([], Raises e))"
  by (simp add: to_csv_def)

lemma save_loop_events:
  "\<exists>n. written (fst (save_loop w p ts dict evs)) = written evs @ take n (asset_files p ts dict) \<and>
       clock_reads (fst (save_loop w p ts dict evs)) = clock_reads evs \<and>
       (snd (save_loop w p ts dict evs) = Returns () \<longrightarrow>
          written (fst (save_loop w p ts dict evs)) = written evs @ asset_files p ts dict)"
proof (induction dict arbitrary: evs)
  case Nil
  then show ?case by (simp add: asset_files_def)
next
  case (Cons entry dict)
  obtain sym df where entry: "entry = (sym, df)" by (cases entry)
  let ?path = "path_join RAW_DATA_DIR (asset_filename p sym ts)"
  show ?case
  proof (cases "to_csv_error w ?path")
    case None
    from Cons.IH [of "evs @ [ToCsv ?path df] @ [Print (Saved ?path)]"]
    obtain n where n: "written (fst (save_loop w p ts dict (evs @ [ToCsv ?path df] @ [Print (Saved ?path)])))
        = written (evs @ [ToCsv ?path df] @ [Print (Saved ?path)]) @ take n (asset_files p ts dict)"
      and c: "clock_reads (fst (save_loop w p ts dict (evs @ [ToCsv ?path df] @ [Print (Saved ?path)])))
        = clock_reads (evs @ [ToCsv ?path df] @ [Print (Saved ?path)])"
      and r: "snd (save_loop w p ts dict (evs @ [ToCsv ?path df] @ [Print (Saved ?path)])) = Returns () \<longrightarrow>
          written (fst (save_loop w p ts dict (evs @ [ToCsv ?path df] @ [Print (Saved ?path)])))
            = written (evs @ [ToCsv ?path df] @ [Print (Saved ?path)]) @ asset_files p ts dict"
      by blast
    show ?thesis
      apply (rule exI [of _ "Suc n"])
      using n c r None
      by (simp add: entry to_csv_cases written_append clock_reads_append asset_files_def Let_def)
  next
    case (Some e)
    show ?thesis
      apply (rule exI [of _ 0])
      using Some by (simp add: entry to_csv_cases Let_def)
  qed
qed

lemma save_data_events:
  "\<exists>n. written (fst (save_data w d p)) = take n (all_files p (strftime (now w)) d) \<and>
       clock_reads (fst (save_data w d p)) = 1 \<and>
       (snd (save_data w d p) = Returns () \<longrightarrow>
          written (fst (save_data w d p)) = all_files p (strftime (now w)) d)"
proof -
  let ?ts = "strftime (now w)"
  let ?loop = "save_loop w p ?ts d [ClockNow]"
  let ?cpath = "path_join RAW_DATA_DIR (combined_filename p ?ts)"
  from save_loop_events [of w p ?ts d "[ClockNow]"]
  obtain n where raw: "written (fst ?loop) = written [ClockNow] @ take n (asset_files p ?ts d)"
      "clock_reads (fst ?loop) = clock_reads [ClockNow]"
      "snd ?loop = Returns () \<longrightarrow> written (fst ?loop) = written [ClockNow] @ asset_files p ?ts d"
    by blast
  from raw(1) have n: "written (fst ?loop) = take n (asset_files p ?ts d)" by simp
  from raw(2) have c: "clock_reads (fst ?loop) = 1" by simp
  from raw(3) have r: "snd ?loop = Returns () \<longrightarrow> written (fst ?loop) = asset_files p ?ts d"
    by simp
  obtain evs out where loop: "?loop = (evs, out)" by (cases ?loop)
  show ?thesis
  proof (cases out)
    case (Returns u)
    with loop r have all: "written evs = asset_files p ?ts d" by simp
    show ?thesis
    proof (cases "pd_concat d")
      case (Returns combined)
      show ?thesis
      proof (cases "to_csv_error w ?cpath")
        case None
        show ?thesis
          apply (rule exI [of _ "Suc (length d)"])
          using loop \<open>out = Returns u\<close> Returns None c all
          by (simp add: save_data_def to_csv_cases written_append clock_reads_append all_files_def
              asset_files_def Let_def)
      next
        case (Some e)
        show ?thesis
          apply (rule exI [of _ "length d"])
          using loop \<open>out = Returns u\<close> Returns Some c all
          by (simp add: save_data_def to_csv_cases all_files_def asset_files_def Let_def)
      qed
    next
      case (Raises e)
      show ?thesis
        apply (rule exI [of _ "length d"])
        using loop \<open>out = Returns u\<close> Raises c all
        by (simp add: save_data_def all_files_def asset_files_def Let_def)
    next
      case Unmodelled
      show ?thesis
        apply (rule exI [of _ "length d"])
        using loop \<open>out = Returns u\<close> Unmodelled c all
        by (simp add: save_data_def all_files_def asset_files_def Let_def)
    qed
  next
    case (Raises e)
    show ?thesis
      apply (rule exI [of _ "min n (length d)"])
      using loop Raises c n
      by (simp add: save_data_def all_files_def asset_files_def Let_def min_def)
  next
    case Unmodelled
    show ?thesis
      apply (rule exI [of _ "min n (length d)"])
      using loop Unmodelled c n
      by (simp add: save_data_def all_files_def asset_files_def Let_def min_def)
  qed
qed

lemma save_loop_returns:
  "\<forall>path. to_csv_error w path = None \<Longrightarrow> snd (save_loop w p ts dict evs) = Returns ()"
proof (induction dict arbitrary: evs)
  case Nil
  then show ?case by simp
next
  case (Cons entry dict)
  obtain sym df where entry: "entry = (sym, df)" by (cases entry)
  from Cons show ?case by (simp add: entry to_csv_cases Let_def)
qed

lemma save_data_returns:
  assumes "d \<noteq> []" and ok: "\<forall>path. to_csv_error w path = None"
  shows "snd (save_data w d p) = Returns ()"
proof -
  obtain evs where "save_loop w p (strftime (now w)) d [ClockNow] = (evs, Returns ())"
    using save_loop_returns [OF ok, of p "strftime (now w)" d "[ClockNow]"]
    by (cases "save_loop w p (strftime (now w)) d [ClockNow]") simp
  with assms show ?thesis
    by (simp add: save_data_def pd_concat_def to_csv_cases Let_def)
qed

lemma path_join_stem: "\<exists>stem. path_join a b = stem @ b"
proof -
  have "path_join a b = [] @ b \<or> path_join a b = a @ b \<or> path_join a b = (a @ ''/'') @ b"
    by (simp add: path_join_def)
  then show ?thesis by blast
qed

lemma all_files_stem:
  assumes "f \<in> set (all_files p ts d)"
  shows "\<exists>stem. fst f = stem @ ''_'' @ ts @ ''.csv''"
proof -
  from assms obtain name where "fst f = path_join RAW_DATA_DIR (name @ ''_'' @ ts @ ''.csv'')"
  proof (cases "f \<in> set (asset_files p ts d)")
    case True
    then obtain sym where "fst f = path_join RAW_DATA_DIR (asset_filename p sym ts)"
      by (auto simp: asset_files_def)
    then have "fst f = path_join RAW_DATA_DIR ((p @ ''_'' @ sym) @ ''_'' @ ts @ ''.csv'')"
      by (simp add: asset_filename_def)
    then show ?thesis by (rule that)
  next
    case False
    with assms have "fst f = path_join RAW_DATA_DIR (combined_filename p ts)"
      by (auto simp: all_files_def split: outcome.splits)
    then have "fst f = path_join RAW_DATA_DIR ((p @ ''_combined'') @ ''_'' @ ts @ ''.csv'')"
      by (simp add: combined_filename_def)
    then show ?thesis by (rule that)
  qed
  moreover obtain stem where "path_join RAW_DATA_DIR (name @ ''_'' @ ts @ ''.csv'')
      = stem @ name @ ''_'' @ ts @ ''.csv''"
    using path_join_stem by blast
  ultimately have "fst f = (stem @ name) @ ''_'' @ ts @ ''.csv''" by simp
  then show ?thesis by blast
qed

lemma stems_differ:
  assumes "a @ ''_'' @ ts @ ''.csv'' = b @ ''_'' @ ts' @ ''.csv''" and "length ts = length ts'"
  shows "ts = ts'"
proof -
  from assms(2) have "length (''_'' @ ts @ ''.csv'') = length (''_'' @ ts' @ ''.csv'')" by simp
  with assms(1) have "''_'' @ ts @ ''.csv'' = ''_'' @ ts' @ ''.csv''"
    using append_eq_append_conv by blast
  then show ?thesis by simp
qed

lemma map_snd_all_files: "map snd (all_files p ts d) = map snd (all_files p ts' d)"
  by (simp add: all_files_def asset_files_def comp_def split: outcome.splits)

lemma map_fst_all_files:
  "d \<noteq> [] \<Longrightarrow> map fst (all_files p ts d) =
     map (\<lambda>entry. path_join RAW_DATA_DIR (asset_filename p (fst entry) ts)) d @
     [path_join RAW_DATA_DIR (combined_filename p ts)]"
  by (simp add: all_files_def asset_files_def comp_def pd_concat_def)

text \<open>
  Claim C6. A call of \<open>save_data\<close> on a non-empty collection reads the clock once;
  every file it writes has a name that ends in that one timestamp; it returns when every
  write succeeds, and then it has written one file per asset and the combined file, in
  this order. A second call whose timestamp differs writes no file of the same name, and
  when both calls return they have written the same frames.
\<close>

theorem save_data_shared_timestamp:
  assumes "data_dict \<noteq> []"
  shows "clock_reads (fst (save_data w data_dict p)) = 1 \<and>
    (\<forall>f \<in> set (written (fst (save_data w data_dict p))).
       \<exists>stem. fst f = stem @ ''_'' @ strftime (now w) @ ''.csv'') \<and>
    ((\<forall>path. to_csv_error w path = None) \<longrightarrow> snd (save_data w data_dict p) = Returns ()) \<and>
    (snd (save_data w data_dict p) = Returns () \<longrightarrow>
       map fst (written (fst (save_data w data_dict p))) =
         map (\<lambda>entry. path_join RAW_DATA_DIR (asset_filename p (fst entry) (strftime (now w))))
           data_dict @
         [path_join RAW_DATA_DIR (combined_filename p (strftime (now w)))]) \<and>
    (\<forall>w'. strftime (now w') \<noteq> strftime (now w) \<longrightarrow>
       fst ` set (written (fst (save_data w data_dict p))) \<inter>
       fst ` set (written (fst (save_data w' data_dict p))) = {} \<and>
       (snd (save_data w data_dict p) = Returns () \<and> snd (save_data w' data_dict p) = Returns ()
          \<longrightarrow> map snd (written (fst (save_data w data_dict p))) =
                map snd (written (fst (save_data w' data_dict p)))))"
proof -
  have sub: "set (written (fst (save_data v data_dict p)))
               \<subseteq> set (all_files p (strftime (now v)) data_dict)" for v
    using save_data_events [of v data_dict p] by (auto dest: in_set_takeD)
  have whole: "written (fst (save_data v data_dict p)) = all_files p (strftime (now v)) data_dict"
    if "snd (save_data v data_dict p) = Returns ()" for v
    using save_data_events [of v data_dict p] that by blast
  have clock: "clock_reads (fst (save_data w data_dict p)) = 1"
    using save_data_events [of w data_dict p] by blast
  have stem: "\<exists>stem. fst f = stem @ ''_'' @ strftime (now v) @ ''.csv''"
    if "f \<in> set (written (fst (save_data v data_dict p)))" for f v
    using that sub [of v] by (blast intro: all_files_stem)
  have names: "map fst (written (fst (save_data w data_dict p))) =
         map (\<lambda>entry. path_join RAW_DATA_DIR (asset_filename p (fst entry) (strftime (now w))))
           data_dict @
         [path_join RAW_DATA_DIR (combined_filename p (strftime (now w)))]"
    if "snd (save_data w data_dict p) = Returns ()"
    using whole [OF that] map_fst_all_files [OF assms] by simp
  have disjoint: "fst ` set (written (fst (save_data w data_dict p))) \<inter>
       fst ` set (written (fst (save_data w' data_dict p))) = {}"
    if "strftime (now w') \<noteq> strftime (now w)" for w'
  proof (rule ccontr)
    assume "fst ` set (written (fst (save_data w data_dict p))) \<inter>
       fst ` set (written (fst (save_data w' data_dict p))) \<noteq> {}"
    then obtain f g where f: "f \<in> set (written (fst (save_data w data_dict p)))"
      and g: "g \<in> set (written (fst (save_data w' data_dict p)))" and eq: "fst f = fst g"
      by auto
    from stem [OF f] stem [OF g] eq obtain a b where
      "a @ ''_'' @ strftime (now w) @ ''.csv'' = b @ ''_'' @ strftime (now w') @ ''.csv''"
      by metis
    then have "strftime (now w) = strftime (now w')"
      by (rule stems_differ) (simp add: length_strftime)
    with that show False by simp
  qed
  have content: "map snd (written (fst (save_data w data_dict p))) =
                map snd (written (fst (save_data w' data_dict p)))"
    if "snd (save_data w data_dict p) = Returns ()" "snd (save_data w' data_dict p) = Returns ()"
    for w'
    using whole [OF that(1)] whole [OF that(2)] map_snd_all_files by simp
  from clock stem names disjoint content save_data_returns [OF assms] show ?thesis
    by blast
qed

lemma digits_numeral:
  "digits (numeral k) n = digits (pred_numeral k) (n div 10) @ [digit_char (n mod 10)]"
  by (simp only: numeral_eq_Suc digits.simps)

lemma strftime_sample_now: "strftime sample_now = ''20240309_140507''"
  by (simp add: strftime_def sample_now_def digit_char_def digits_numeral)

lemma strftime_later: "strftime (now later_world) = ''20240309_140508''"
  by (simp add: later_world_def strftime_def sample_now_def digit_char_def digits_numeral)

lemma now_saving_world: "now saving_world = sample_now"
  by (simp add: saving_world_def world_of_def)

lemma saving_world_writes: "\<forall>path. to_csv_error saving_world path = None"
  by (simp add: saving_world_def world_of_def)

theorem save_data_shared_timestamp_witness:
  "one_asset \<noteq> [] \<and> strftime (now later_world) \<noteq> strftime (now saving_world) \<and>
   clock_reads (fst (save_data saving_world one_asset ''crypto_data'')) = 1 \<and>
   snd (save_data saving_world one_asset ''crypto_data'') = Returns () \<and>
   map fst (written (fst (save_data saving_world one_asset ''crypto_data''))) =
     [''data/raw/crypto_data_BTC_20240309_140507.csv'',
      ''data/raw/crypto_data_combined_20240309_140507.csv''] \<and>
   fst ` set (written (fst (save_data saving_world one_asset ''crypto_data''))) \<inter>
   fst ` set (written (fst (save_data later_world one_asset ''crypto_data''))) = {}"
proof -
  have h: "one_asset \<noteq> []" by (simp add: one_asset_def)
  have d: "strftime (now later_world) \<noteq> strftime (now saving_world)"
    by (simp add: strftime_later now_saving_world strftime_sample_now)
  note t = save_data_shared_timestamp [OF h, of saving_world "''crypto_data''"]
  from t saving_world_writes
  have r: "snd (save_data saving_world one_asset ''crypto_data'') = Returns ()" by blast
  with t have "map fst (written (fst (save_data saving_world one_asset ''crypto_data''))) =
         map (\<lambda>entry. path_join RAW_DATA_DIR
            (asset_filename ''crypto_data'' (fst entry) (strftime (now saving_world)))) one_asset @
         [path_join RAW_DATA_DIR (combined_filename ''crypto_data'' (strftime (now saving_world)))]"
    by blast
  then have n: "map fst (written (fst (save_data saving_world one_asset ''crypto_data''))) =
     [''data/raw/crypto_data_BTC_20240309_140507.csv'',
      ''data/raw/crypto_data_combined_20240309_140507.csv'']"
    by (simp add: one_asset_def now_saving_world strftime_sample_now path_join_def
        RAW_DATA_DIR_def asset_filename_def combined_filename_def)
  from t d have "fst ` set (written (fst (save_data saving_world one_asset ''crypto_data''))) \<inter>
     fst ` set (written (fst (save_data later_world one_asset ''crypto_data''))) = {}"
    by blast
  with h d t r n show ?thesis by blast
qed

section \<open>save_data on an empty collection, and the guard of main\<close>

lemma get_historical_data_clock: "clock_reads (fst (get_historical_data w c cur days)) = 0"
  by (simp add: get_historical_data_def Let_def split: outcome.splits)

lemma collect_loop_clock:
  "clock_reads (fst (collect_loop w days dict res evs)) = clock_reads evs"
proof (induction dict arbitrary: res evs)
  case Nil
  then show ?case by simp
next
  case (Cons entry dict)
  obtain c k where entry: "entry = (c, k)" by (cases entry)
  obtain es out where g: "get_historical_data w c ''usd'' days = (es, out)"
    by (cases "get_historical_data w c ''usd'' days")
  from get_historical_data_clock [of w c "''usd''" days] g have es: "clock_reads es = 0" by simp
  show ?case
    by (cases out) (simp_all add: entry g Cons.IH clock_reads_append es)
qed

lemma get_historical_data_written: "written (fst (get_historical_data w c cur days)) = []"
  by (simp add: get_historical_data_def Let_def split: outcome.splits)

lemma collect_loop_written:
  "written (fst (collect_loop w days dict res evs)) = written evs"
proof (induction dict arbitrary: res evs)
  case Nil
  then show ?case by simp
next
  case (Cons entry dict)
  obtain c k where entry: "entry = (c, k)" by (cases entry)
  obtain es out where g: "get_historical_data w c ''usd'' days = (es, out)"
    by (cases "get_historical_data w c ''usd'' days")
  from get_historical_data_written [of w c "''usd''" days] g have es: "written es = []" by simp
  show ?case
    by (cases out) (simp_all add: entry g Cons.IH written_append es)
qed

text \<open>
  Claim C9. On an empty collection \<open>save_data\<close> reads the clock, writes no file and
  raises the \<^verbatim>\<open>ValueError\<close> of \<^verbatim>\<open>pd.concat\<close>; it does not return. When the batch of
  \<open>main\<close> collects nothing, \<open>main\<close> prints its notice and returns without calling
  \<open>save_data\<close>: no clock is read and no file is written.
\<close>

theorem save_data_empty_collection:
  "save_data w [] filename_prefix = ([ClockNow], Raises ValueError) \<and>
   written (fst (save_data w [] filename_prefix)) = [] \<and>
   (get_multiple_cryptos w CRYPTOCURRENCIES DEFAULT_DAYS = (evs, Returns []) \<longrightarrow>
      main w = ([Print Start, Print (Period DEFAULT_DAYS),
                 Print (Cryptos (map snd CRYPTOCURRENCIES))] @ evs @ [Print NoData], Returns ()) \<and>
      clock_reads (fst (main w)) = 0 \<and> written (fst (main w)) = [])"
proof -
  have save: "save_data w [] filename_prefix = ([ClockNow], Raises ValueError)"
    by (simp add: save_data_def pd_concat_def)
  have guard: "main w = ([Print Start, Print (Period DEFAULT_DAYS),
                 Print (Cryptos (map snd CRYPTOCURRENCIES))] @ evs @ [Print NoData], Returns ()) \<and>
      clock_reads (fst (main w)) = 0 \<and> written (fst (main w)) = []"
    if run: "get_multiple_cryptos w CRYPTOCURRENCIES DEFAULT_DAYS = (evs, Returns [])"
  proof -
    from run have m: "main w = ([Print Start, Print (Period DEFAULT_DAYS),
                 Print (Cryptos (map snd CRYPTOCURRENCIES))] @ evs @ [Print NoData], Returns ())"
      by (simp add: main_def)
    from collect_loop_clock [of w DEFAULT_DAYS CRYPTOCURRENCIES "[]" "[]"] run
    have c: "clock_reads evs = 0" by (simp add: get_multiple_cryptos_def)
    from collect_loop_written [of w DEFAULT_DAYS CRYPTOCURRENCIES "[]" "[]"] run
    have f: "written evs = []" by (simp add: get_multiple_cryptos_def)
    from m c f show ?thesis by (simp add: clock_reads_append written_append)
  qed
  from save have "written (fst (save_data w [] filename_prefix)) = []" by simp
  with save guard show ?thesis by blast
qed

lemma series_try_all_fail: "series_try all_fail_world c ''usd'' days = Raises ConnectionError"
  by (simp add: series_try_def all_fail_world_def fetch_json_world_of)

lemma all_fail_run:
  "\<exists>evs. get_multiple_cryptos all_fail_world CRYPTOCURRENCIES DEFAULT_DAYS = (evs, Returns [])"
  by (simp add: get_multiple_cryptos_def CRYPTOCURRENCIES_def get_historical_data_def
      series_try_all_fail df_empty_empty_frame)

theorem save_data_empty_collection_witness:
  "\<exists>evs. get_multiple_cryptos all_fail_world CRYPTOCURRENCIES DEFAULT_DAYS = (evs, Returns []) \<and>
     snd (main all_fail_world) = Returns () \<and> last (fst (main all_fail_world)) = Print NoData \<and>
     clock_reads (fst (main all_fail_world)) = 0 \<and>
     save_data all_fail_world [] ''crypto_data'' = ([ClockNow], Raises ValueError)"
proof -
  from all_fail_run obtain evs where
    run: "get_multiple_cryptos all_fail_world CRYPTOCURRENCIES DEFAULT_DAYS = (evs, Returns [])" ..
  from save_data_empty_collection [of all_fail_world "''crypto_data''" evs] run
  show ?thesis by auto
qed

section \<open>get_current_prices\<close>

lemma join_str_Cons: "join_str sep (x # xs) = x @ concat (map (\<lambda>y. sep @ y) xs)"
  by (induction xs arbitrary: x) simp_all

lemma get_current_prices_requests:
  "requests_of (fst (get_current_prices w crypto_ids)) = [(prices_url, prices_params crypto_ids)]"
  by (simp add: get_current_prices_def Let_def split: outcome.splits)

text \<open>
  Claim C7, as amended. For a non-empty list of ids, \<open>get_current_prices\<close> sends one
  request, to the price endpoint, whose \<^verbatim>\<open>ids\<close> parameter is the first id followed by a
  comma and the next id for each other id. When \<^verbatim>\<open>session.get\<close>, \<^verbatim>\<open>raise_for_status\<close>
  or \<^verbatim>\<open>response.json()\<close> raises a \<^verbatim>\<open>RequestException\<close>, the call returns the empty
  table. A table that is not empty is the table of the whole decoded response: there is
  no partial result. An exception of another class that the body of the \<^verbatim>\<open>try\<close> block
  raises is not caught: the call raises it.
\<close>

theorem get_current_prices_batched:
  assumes "crypto_ids \<noteq> []"
  shows "requests_of (fst (get_current_prices w crypto_ids)) =
           [(prices_url, prices_params crypto_ids)] \<and>
         map_of (prices_params crypto_ids) ''ids'' =
           Some (PStr (hd crypto_ids @ concat (map (\<lambda>y. '','' @ y) (tl crypto_ids)))) \<and>
         (\<forall>e. fetch_json w prices_url (prices_params crypto_ids) = Raises e \<and>
              is_RequestException e \<longrightarrow>
              snd (get_current_prices w crypto_ids) = Returns empty_frame) \<and>
         df_empty empty_frame \<and>
         (\<forall>df. snd (get_current_prices w crypto_ids) = Returns df \<and> \<not> df_empty df \<longrightarrow>
            (\<exists>data df0. fetch_json w prices_url (prices_params crypto_ids) = Returns data \<and>
               from_dict_index data = Returns df0 \<and>
               reset_index ''crypto_id'' df0 = Returns df)) \<and>
         (\<forall>e. prices_try w crypto_ids = Raises e \<and> \<not> is_RequestException e \<longrightarrow>
              snd (get_current_prices w crypto_ids) = Raises e)"
proof -
  from assms obtain x xs where ids: "crypto_ids = x # xs" by (cases crypto_ids) auto
  have joined: "map_of (prices_params crypto_ids) ''ids'' =
           Some (PStr (hd crypto_ids @ concat (map (\<lambda>y. '','' @ y) (tl crypto_ids))))"
    unfolding ids by (simp add: prices_params_def join_str_Cons)
  have caught: "snd (get_current_prices w crypto_ids) = Returns empty_frame"
    if "fetch_json w prices_url (prices_params crypto_ids) = Raises e" "is_RequestException e" for e
    using that by (simp add: get_current_prices_def prices_try_def Let_def)
  have passed: "snd (get_current_prices w crypto_ids) = Raises e"
    if "prices_try w crypto_ids = Raises e" "\<not> is_RequestException e" for e
    using that by (simp add: get_current_prices_def Let_def)
  have whole: "\<exists>data df0. fetch_json w prices_url (prices_params crypto_ids) = Returns data \<and>
               from_dict_index data = Returns df0 \<and> reset_index ''crypto_id'' df0 = Returns df"
    if r: "snd (get_current_prices w crypto_ids) = Returns df" and ne: "\<not> df_empty df"
    for df
  proof (cases "fetch_json w prices_url (prices_params crypto_ids)")
    case (Returns data)
    show ?thesis
    proof (cases "from_dict_index data")
      case inner: (Returns df0)
      from r ne Returns inner have "reset_index ''crypto_id'' df0 = Returns df"
        by (cases "reset_index ''crypto_id'' df0")
          (auto simp: get_current_prices_def prices_try_def Let_def df_empty_empty_frame
            split: if_splits)
      with Returns inner show ?thesis by blast
    next
      case (Raises e)
      with r ne Returns show ?thesis
        by (auto simp: get_current_prices_def prices_try_def Let_def df_empty_empty_frame
            split: if_splits)
    next
      case Unmodelled
      with r Returns show ?thesis by (simp add: get_current_prices_def prices_try_def Let_def)
    qed
  next
    case (Raises e)
    with r ne show ?thesis
      by (auto simp: get_current_prices_def prices_try_def Let_def df_empty_empty_frame
          split: if_splits)
  next
    case Unmodelled
    with r show ?thesis by (simp add: get_current_prices_def prices_try_def Let_def)
  qed
  from get_current_prices_requests joined caught whole passed df_empty_empty_frame show ?thesis
    by blast
qed

theorem get_current_prices_batched_witness:
  "[''bitcoin'', ''ethereum''] \<noteq> [] \<and>
   fetch_json undecodable_world prices_url (prices_params [''bitcoin'', ''ethereum''])
     = Raises JSONDecodeError \<and>
   requests_of (fst (get_current_prices undecodable_world [''bitcoin'', ''ethereum'']))
     = [(prices_url, prices_params [''bitcoin'', ''ethereum''])] \<and>
   map_of (prices_params [''bitcoin'', ''ethereum'']) ''ids'' = Some (PStr ''bitcoin,ethereum'') \<and>
   snd (get_current_prices undecodable_world [''bitcoin'', ''ethereum'']) = Returns empty_frame"
proof -
  have h: "[''bitcoin'', ''ethereum''] \<noteq> []" by simp
  have f: "fetch_json undecodable_world prices_url (prices_params [''bitcoin'', ''ethereum''])
     = Raises JSONDecodeError"
    by (simp add: undecodable_world_def fetch_json_world_of raise_for_status_def)
  note t = get_current_prices_batched [OF h, of undecodable_world]
  from t f have "snd (get_current_prices undecodable_world [''bitcoin'', ''ethereum''])
      = Returns empty_frame"
    by simp
  moreover from t have "map_of (prices_params [''bitcoin'', ''ethereum'']) ''ids''
      = Some (PStr ''bitcoin,ethereum'')"
    by simp
  ultimately show ?thesis using t f by simp
qed

text \<open>
  The claim as the specification states it fails: a response that is decoded but is not
  the expected mapping, here the list \<^verbatim>\<open>["error"]\<close>, makes \<^verbatim>\<open>from_dict\<close> raise
  \<^verbatim>\<open>AttributeError\<close>, which the handler does not catch. The caller gets the exception,
  not an empty table.
\<close>

theorem get_current_prices_list_body:
  "get_current_prices list_body_world [''bitcoin'', ''ethereum''] =
     ([HttpGet prices_url (prices_params [''bitcoin'', ''ethereum''])], Raises AttributeError)"
  by (simp add: get_current_prices_def prices_try_def list_body_world_def fetch_json_world_of
      raise_for_status_def ok_response_def)

text \<open>
  So does a quote with a field named \<^verbatim>\<open>crypto_id\<close>: \<^verbatim>\<open>reset_index\<close> raises
  \<^verbatim>\<open>ValueError\<close>.
\<close>

lemma get_current_prices_crypto_id_key:
  "get_current_prices crypto_id_key_world [''bitcoin''] =
     ([HttpGet prices_url (prices_params [''bitcoin''])], Raises ValueError)"
  by (simp add: get_current_prices_def prices_try_def crypto_id_key_world_def fetch_json_world_of
      raise_for_status_def ok_response_def nested_frame_def nested_cell_def reset_index_def)

text \<open>The table of a response of the expected shape.\<close>

lemma get_current_prices_quotes:
  "get_current_prices quotes_world [''bitcoin'', ''ethereum''] =
     ([HttpGet prices_url (prices_params [''bitcoin'', ''ethereum''])],
      Returns \<lparr>idx = [CInt 0, CInt 1],
               cols = [(''crypto_id'', [CStr ''bitcoin'', CStr ''ethereum'']),
                       (''usd'', [CNum (FNum 50000), CNum (FNum 3000)]),
                       (''usd_market_cap'', [CNum (FNum 900), CNum FNaN])]\<rparr>)"
  by (simp add: get_current_prices_def prices_try_def quotes_world_def quotes_payload_def
      fetch_json_world_of raise_for_status_def ok_response_def nested_frame_def nested_cell_def
      reset_index_def)

end
